theory Spec2Isabelle
  imports Complex_Main "HOL-Library.Word" "HOL-Library.Log_Nat"
begin

section \<open>Data model of \<open>scratch/vanet-routing-compare.cc\<close>\<close>

text \<open>
  The embedding covers the WAVE beacon accounting of the program: \<open>getDistSq\<close>,
  \<open>ReceiveWavePacket\<close>, \<open>GenerateWaveTraffic\<close>, \<open>CheckThroughput\<close> and the
  final ratio of \<open>Run\<close>.

  Conventions.
  \<^item> A C++ \<open>double\<close> that holds a coordinate, a velocity component or the safety range is
    a finite value and is read as the \<open>real\<close> it denotes. Every subtraction,
    multiplication, addition and division of doubles rounds its exact result to the
    nearest double (53 significant bits, ties to the even neighbour, gradual underflow
    below 2 to the power -1022): that is \<open>round_double\<close>. A result that the hardware turns
    into an infinity shows here as a value of at least 2 to the power 1024, above every
    finite double, so a comparison with the finite safety range comes out as on the
    hardware. A division by zero has no such reading; the quotient of the ratios has a
    type of its own (\<open>quotient\<close>) with the special results of the hardware.
  \<^item> The four static counters are C++ \<open>int\<close>. They are only ever incremented or set
    to zero; signed overflow is undefined in C++, so they are read as unbounded \<open>int\<close>.
  \<^item> \<open>m_nNodes\<close> is a \<open>uint32_t\<close> that the receive loop casts to \<open>int\<close>: it is a
    32 bit word, and the cast is \<open>sint\<close>.
  \<^item> Node ids, packet sizes and packet counts are \<open>uint32_t\<close> values on which the code
    performs no arithmetic that can wrap (\<open>pktCount - 1\<close> is guarded by
    \<open>pktCount > 0\<close>; the round trip of an id through \<open>int\<close> preserves equality), so
    they are \<open>nat\<close>.
  \<^item> \<open>NS_ASSERT\<close> on a missing mobility model and an index outside a container end the
    program: they are the errors of the result type.
  \<^item> Log output (\<open>NS_LOG_UNCOND\<close>) changes no state and is left out.
\<close>

datatype error = AssertFailed | OutOfRange

datatype Vector = Vector (vec_x: real) (vec_y: real) (vec_z: real)

record MobilityModel =
  GetPosition :: Vector
  GetVelocity :: Vector

record Node =
  GetId :: nat
  GetObject_MobilityModel :: "MobilityModel option"

type_synonym Ipv4Address = "32 word"

text \<open>A packet: its size and, when the transport attached one, the sender address of its
  \<open>SocketAddressTag\<close>.\<close>

record Packet =
  GetSize :: nat
  PeekPacketTag :: "Ipv4Address option"

definition Create_Packet :: "nat \<Rightarrow> Packet" where
  "Create_Packet pktSize = \<lparr>GetSize = pktSize, PeekPacketTag = None\<rparr>"

text \<open>A socket as the two callbacks see it: the node it belongs to and the packets that
  \<open>Recv\<close> will hand out.\<close>

record Socket =
  GetNode :: Node
  Recv_queue :: "Packet list"

type_synonym Time = real

text \<open>What a callback asks of the transport and of the scheduler:
  \<open>socket->Send\<close>, \<open>socket->Close\<close> and
  \<open>Simulator::Schedule (delay, &GenerateWaveTraffic, socket, pktSize, pktCount, pktInterval)\<close>.\<close>

datatype Effect = Send Packet | Close | Schedule Time nat nat Time

text \<open>The static members of \<open>VanetRoutingExperiment\<close>.\<close>

record Statics =
  wavePktSendCount :: int
  wavePktReceiveCount :: int
  wavePktInCoverageReceiveCount :: int
  wavePktExpectedReceiveCount :: int
  m_adhocTxNodes :: "Node list"
  m_txSafetyRangeSq :: real

text \<open>One line of the interval CSV file, field by field.\<close>

datatype quotient = Finite real | PosInf | NegInf | NaN

record Row =
  row_time :: Time
  row_kbs :: real
  row_packetsReceived :: nat
  row_nSinks :: int
  row_protocolName :: string
  row_txp :: real
  row_wavePktReceiveCount :: int
  row_wavePktSendCount :: int
  row_wavePDR :: quotient
  row_wavePktExpectedReceiveCount :: int
  row_wavePktInCoverageReceiveCount :: int
  row_wavePDR2 :: quotient

text \<open>The members of the experiment object that the modelled functions use. An entry of
  \<open>m_adhocTxInterfaces\<close> is the address \<open>GetAddress (i)\<close> together with the node that
  \<open>Get (i).first->GetObject<Node> ()\<close> yields; \<open>csv\<close> is the content of the file
  \<open>m_CSVfileName\<close>, opened in append mode by every sample.\<close>

record Experiment =
  bytesTotal :: nat
  packetsReceived :: nat
  m_nSinks :: int
  m_protocolName :: string
  m_txp :: real
  m_nNodes :: "32 word"
  m_adhocTxInterfaces :: "(Ipv4Address \<times> Node) list"
  csv :: "Row list"

section \<open>The functions\<close>

subsection \<open>Arithmetic of \<open>double\<close>\<close>

text \<open>\<open>pow2 e\<close> is 2 to the power \<open>e\<close>; \<open>floor_log2 x\<close> is, for \<open>x > 0\<close>, the exponent
  \<open>e\<close> with \<open>pow2 e \<le> x < pow2 (e + 1)\<close>; \<open>round_half_even\<close> rounds to the nearest
  integer, a tie to the even one. \<open>round_double x\<close> is the double nearest to \<open>x\<close>: the
  spacing of the doubles around \<open>x\<close> is 2 to the power
  \<open>max (floor_log2 \<bar>x\<bar>) (-1022) - 52\<close>.\<close>

definition pow2 :: "int \<Rightarrow> real" where
  "pow2 e = (if 0 \<le> e then 2 ^ nat e else 1 / 2 ^ nat (- e))"

definition floor_log2 :: "real \<Rightarrow> int" where
  "floor_log2 x = (if 1 \<le> x then bitlen \<lfloor>x\<rfloor> - 1 else - bitlen (\<lceil>1 / x\<rceil> - 1))"

definition round_half_even :: "real \<Rightarrow> int" where
  "round_half_even y =
     (let f = \<lfloor>y\<rfloor>; d = y - of_int f
      in if d < 1 / 2 then f else if 1 / 2 < d then f + 1 else if even f then f else f + 1)"

definition round_double :: "real \<Rightarrow> real" where
  "round_double x =
     (if x = 0 then 0
      else (let ue = max (floor_log2 \<bar>x\<bar>) (- 1022) - 52
            in of_int (round_half_even (x / pow2 ue)) * pow2 ue))"

definition double_sub :: "real \<Rightarrow> real \<Rightarrow> real" where
  "double_sub a b = round_double (a - b)"

definition double_mul :: "real \<Rightarrow> real \<Rightarrow> real" where
  "double_mul a b = round_double (a * b)"

definition double_add :: "real \<Rightarrow> real \<Rightarrow> real" where
  "double_add a b = round_double (a + b)"

text \<open>Division of two doubles: a zero divisor gives an infinity or a NaN, never a trap.\<close>

definition double_div :: "real \<Rightarrow> real \<Rightarrow> quotient" where
  "double_div a b =
     (if b \<noteq> 0 then Finite (round_double (a / b))
      else if a > 0 then PosInf
      else if a < 0 then NegInf
      else NaN)"

subsection \<open>Containers\<close>

definition Get :: "Node list \<Rightarrow> nat \<Rightarrow> error + Node" where
  "Get n i = (if i < length n then Inr (n ! i) else Inl OutOfRange)"

definition Get_interface :: "(Ipv4Address \<times> Node) list \<Rightarrow> nat \<Rightarrow> error + (Ipv4Address \<times> Node)" where
  "Get_interface c i = (if i < length c then Inr (c ! i) else Inl OutOfRange)"

subsection \<open>\<open>getDistSq\<close>\<close>

definition getDistSq :: "Node \<Rightarrow> Node \<Rightarrow> error + real" where
  "getDistSq n1 n2 =
     (case GetObject_MobilityModel n1 of
        None \<Rightarrow> Inl AssertFailed
      | Some rxPosition \<Rightarrow>
          (let rxPos = GetPosition rxPosition;
               rx_x = vec_x rxPos;
               rx_y = vec_y rxPos
           in case GetObject_MobilityModel n2 of
                None \<Rightarrow> Inl AssertFailed
              | Some txPosition \<Rightarrow>
                  (let txPos = GetPosition txPosition;
                       tx_x = vec_x txPos;
                       tx_y = vec_y txPos
                   in Inr (double_add
                             (double_mul (double_sub tx_x rx_x) (double_sub tx_x rx_x))
                             (double_mul (double_sub tx_y rx_y) (double_sub tx_y rx_y))))))"

subsection \<open>\<open>ReceiveWavePacket\<close>\<close>

text \<open>The loop \<open>for (int i = 0; i < (int) m_nNodes; i++)\<close> over the interface table; the
  list argument holds the values of \<open>i\<close> still to come. The loop has no \<open>break\<close>: every
  entry with the packet's address is looked at.\<close>

fun ReceiveWavePacket_for ::
  "(Ipv4Address \<times> Node) list \<Rightarrow> Node \<Rightarrow> Ipv4Address \<Rightarrow> nat list \<Rightarrow> Statics \<Rightarrow> error + Statics" where
  "ReceiveWavePacket_for ifs node addr [] g = Inr g"
| "ReceiveWavePacket_for ifs node addr (i # rest) g =
     (case Get_interface ifs i of
        Inl e \<Rightarrow> Inl e
      | Inr xx \<Rightarrow>
          if addr = fst xx then
            (let txNode = snd xx in
             case getDistSq node txNode of
               Inl e \<Rightarrow> Inl e
             | Inr rxDistSq \<Rightarrow>
                 if rxDistSq \<le> m_txSafetyRangeSq g then
                   ReceiveWavePacket_for ifs node addr rest
                     (g\<lparr>wavePktInCoverageReceiveCount := wavePktInCoverageReceiveCount g + 1\<rparr>)
                 else ReceiveWavePacket_for ifs node addr rest g)
          else ReceiveWavePacket_for ifs node addr rest g)"

text \<open>The body of the \<open>while\<close> loop, for one packet that \<open>Recv\<close> returned.\<close>

definition ReceiveWavePacket_body :: "Experiment \<Rightarrow> Node \<Rightarrow> Packet \<Rightarrow> Statics \<Rightarrow> error + Statics" where
  "ReceiveWavePacket_body this node packet g =
     (let g1 = g\<lparr>wavePktReceiveCount := wavePktReceiveCount g + 1\<rparr> in
      case GetObject_MobilityModel node of
        None \<Rightarrow> Inl AssertFailed
      | Some rxPosition \<Rightarrow>
          (let rxVel = GetVelocity rxPosition;
               receiverMoving = (if vec_x rxVel \<noteq> 0 \<or> vec_y rxVel \<noteq> 0 then 1 else 0 :: int)
           in if receiverMoving = 1 then
                (case PeekPacketTag packet of
                   None \<Rightarrow> Inr g1
                 | Some addr \<Rightarrow>
                     ReceiveWavePacket_for (m_adhocTxInterfaces this) node addr
                       [0 ..< nat (sint (m_nNodes this))] g1)
              else Inr g1))"

text \<open>\<open>while ((packet = socket->Recv ()))\<close>: the queue is drained from its head.\<close>

fun ReceiveWavePacket_while :: "Experiment \<Rightarrow> Node \<Rightarrow> Packet list \<Rightarrow> Statics \<Rightarrow> error + Statics" where
  "ReceiveWavePacket_while this node [] g = Inr g"
| "ReceiveWavePacket_while this node (packet # queue) g =
     (case ReceiveWavePacket_body this node packet g of
        Inl e \<Rightarrow> Inl e
      | Inr g' \<Rightarrow> ReceiveWavePacket_while this node queue g')"

definition ReceiveWavePacket :: "Experiment \<Rightarrow> Socket \<Rightarrow> Statics \<Rightarrow> error + (Statics \<times> Socket)" where
  "ReceiveWavePacket this socket g =
     (case ReceiveWavePacket_while this (GetNode socket) (Recv_queue socket) g of
        Inl e \<Rightarrow> Inl e
      | Inr g' \<Rightarrow> Inr (g', socket\<lparr>Recv_queue := []\<rparr>))"

subsection \<open>\<open>GenerateWaveTraffic\<close>\<close>

text \<open>The loop over \<open>n.Begin () .. n.End ()\<close>; the first list holds the nodes still to
  come, \<open>n\<close> is the whole container.\<close>

fun GenerateWaveTraffic_for :: "Node list \<Rightarrow> Node list \<Rightarrow> nat \<Rightarrow> Statics \<Rightarrow> error + Statics" where
  "GenerateWaveTraffic_for [] n txNodeId g = Inr g"
| "GenerateWaveTraffic_for (object # rest) n txNodeId g =
     (let rxNodeId = GetId object in
      if rxNodeId \<noteq> txNodeId then
        (case GetObject_MobilityModel object of
           None \<Rightarrow> Inl AssertFailed
         | Some rxPosition \<Rightarrow>
             (let rxVel = GetVelocity rxPosition;
                  receiverMoving = (if vec_x rxVel \<noteq> 0 \<or> vec_y rxVel \<noteq> 0 then 1 else 0 :: int)
              in if receiverMoving = 1 then
                   (case Get n txNodeId of
                      Inl e \<Rightarrow> Inl e
                    | Inr txNode \<Rightarrow>
                        (case getDistSq txNode object of
                           Inl e \<Rightarrow> Inl e
                         | Inr distSq \<Rightarrow>
                             if distSq \<le> m_txSafetyRangeSq g then
                               GenerateWaveTraffic_for rest n txNodeId
                                 (g\<lparr>wavePktExpectedReceiveCount := wavePktExpectedReceiveCount g + 1\<rparr>)
                             else GenerateWaveTraffic_for rest n txNodeId g))
                 else GenerateWaveTraffic_for rest n txNodeId g))
      else GenerateWaveTraffic_for rest n txNodeId g)"

definition GenerateWaveTraffic ::
  "Socket \<Rightarrow> nat \<Rightarrow> nat \<Rightarrow> Time \<Rightarrow> Statics \<Rightarrow> error + (Statics \<times> Effect list)" where
  "GenerateWaveTraffic socket pktSize pktCount pktInterval g =
     (if pktCount > 0 then
        (let txNodeId = GetId (GetNode socket);
             n = m_adhocTxNodes g
         in case Get n txNodeId of
              Inl e \<Rightarrow> Inl e
            | Inr txNode \<Rightarrow>
                (case GetObject_MobilityModel txNode of
                   None \<Rightarrow> Inl AssertFailed
                 | Some txPosition \<Rightarrow>
                     (let txVel = GetVelocity txPosition;
                          senderMoving = (if vec_x txVel = 0 \<and> vec_y txVel = 0 then 0 else 1 :: int)
                      in if senderMoving \<noteq> 0 then
                           (case GenerateWaveTraffic_for n n txNodeId
                                   (g\<lparr>wavePktSendCount := wavePktSendCount g + 1\<rparr>) of
                              Inl e \<Rightarrow> Inl e
                            | Inr g' \<Rightarrow>
                                Inr (g', [Send (Create_Packet pktSize),
                                          Schedule pktInterval pktSize (pktCount - 1) pktInterval]))
                         else Inr (g, [Schedule pktInterval pktSize (pktCount - 1) pktInterval]))))
      else Inr (g, [Close]))"

subsection \<open>\<open>CheckThroughput\<close> and the final ratio of \<open>Run\<close>\<close>

definition wavePDR :: "Statics \<Rightarrow> quotient" where
  "wavePDR g =
     (if wavePktSendCount g > 0
      then double_div (real_of_int (wavePktReceiveCount g)) (real_of_int (wavePktSendCount g))
      else Finite 0)"

definition wavePDR2 :: "Statics \<Rightarrow> quotient" where
  "wavePDR2 g =
     (if wavePktExpectedReceiveCount g > 0
      then double_div (real_of_int (wavePktInCoverageReceiveCount g))
             (real_of_int (wavePktExpectedReceiveCount g))
      else Finite 0)"

text \<open>\<open>CheckThroughput\<close> at simulated time \<open>now\<close>: the row it appends, the members it
  resets, and the delay after which it schedules itself again.\<close>

definition CheckThroughput :: "Time \<Rightarrow> Experiment \<Rightarrow> Statics \<Rightarrow> Experiment \<times> Statics \<times> Time" where
  "CheckThroughput now this g =
     (let kbs = round_double (double_mul (real (bytesTotal this)) 8 / 1000);
          r = \<lparr>row_time = now,
               row_kbs = kbs,
               row_packetsReceived = packetsReceived this,
               row_nSinks = m_nSinks this,
               row_protocolName = m_protocolName this,
               row_txp = m_txp this,
               row_wavePktReceiveCount = wavePktReceiveCount g,
               row_wavePktSendCount = wavePktSendCount g,
               row_wavePDR = wavePDR g,
               row_wavePktExpectedReceiveCount = wavePktExpectedReceiveCount g,
               row_wavePktInCoverageReceiveCount = wavePktInCoverageReceiveCount g,
               row_wavePDR2 = wavePDR2 g\<rparr>
      in (this\<lparr>bytesTotal := 0, packetsReceived := 0, csv := csv this @ [r]\<rparr>,
          g\<lparr>wavePktReceiveCount := 0, wavePktSendCount := 0\<rparr>,
          1))"

text \<open>The ratio \<open>bsm_pdr\<close> that \<open>Run\<close> computes after \<open>Simulator::Run\<close> returned.\<close>

definition bsm_pdr :: "Statics \<Rightarrow> quotient" where
  "bsm_pdr g =
     (if wavePktExpectedReceiveCount g > 0
      then double_div (real_of_int (wavePktInCoverageReceiveCount g))
             (real_of_int (wavePktExpectedReceiveCount g))
      else Finite 0)"

section \<open>Scheduler and transport, as far as the scenarios use them\<close>

text \<open>The first \<open>Simulator::Schedule\<close> among the effects of a callback.\<close>

fun scheduled :: "Effect list \<Rightarrow> (Time \<times> nat \<times> nat \<times> Time) option" where
  "scheduled [] = None"
| "scheduled (Schedule delay pktSize pktCount pktInterval # es) = Some (delay, pktSize, pktCount, pktInterval)"
| "scheduled (e # es) = scheduled es"

text \<open>The events that one scheduled call of \<open>GenerateWaveTraffic\<close> leads to: the scheduler
  runs the call at time \<open>now\<close>, when the container holds the nodes \<open>nodes_at now\<close> (the
  mobility models have moved on), stamps its effects with \<open>now\<close>, and runs the call it
  scheduled after the delay. The packet count falls with every call, so the chain ends.\<close>

function GenerateWaveTraffic_chain ::
  "(Time \<Rightarrow> Node list) \<Rightarrow> Socket \<Rightarrow> Time \<Rightarrow> nat \<Rightarrow> nat \<Rightarrow> Time \<Rightarrow> Statics \<Rightarrow>
   error + (Statics \<times> (Time \<times> Effect) list)" where
  "GenerateWaveTraffic_chain nodes_at socket now pktSize pktCount pktInterval g =
     (case GenerateWaveTraffic socket pktSize pktCount pktInterval
             (g\<lparr>m_adhocTxNodes := nodes_at now\<rparr>) of
        Inl e \<Rightarrow> Inl e
      | Inr (g', effects) \<Rightarrow>
          (case scheduled effects of
             None \<Rightarrow> Inr (g', map (Pair now) effects)
           | Some (delay, pktSize', pktCount', pktInterval') \<Rightarrow>
               (case GenerateWaveTraffic_chain nodes_at socket (now + delay) pktSize' pktCount'
                       pktInterval' g' of
                  Inl e \<Rightarrow> Inl e
                | Inr (g'', trace) \<Rightarrow> Inr (g'', map (Pair now) effects @ trace))))"
  by pat_completeness auto
termination
proof (relation "measure (\<lambda>(nodes_at, socket, now, pktSize, pktCount, pktInterval, g). pktCount)")
  show "wf (measure (\<lambda>(nodes_at, socket, now, pktSize, pktCount, pktInterval, g). pktCount))"
    by simp
next
  fix nodes_at :: "Time \<Rightarrow> Node list" and socket :: Socket and now :: Time
    and pktSize pktCount :: nat and pktInterval :: Time and g :: Statics
    and x y and g' :: Statics and effects and z delay w pktSize' v pktCount' pktInterval'
  assume r: "GenerateWaveTraffic socket pktSize pktCount pktInterval
          (g\<lparr>m_adhocTxNodes := nodes_at now\<rparr>) = Inr x"
    and x: "(g', effects) = x"
    and s: "scheduled effects = Some z" "(delay, w) = z" "(pktSize', v) = w" "(pktCount', pktInterval') = v"
  from r x have "GenerateWaveTraffic socket pktSize pktCount pktInterval
          (g\<lparr>m_adhocTxNodes := nodes_at now\<rparr>) = Inr (g', effects)" by simp
  moreover from s have "scheduled effects = Some (delay, pktSize', pktCount', pktInterval')" by auto
  ultimately have "pktCount' < pktCount"
    by (auto simp: GenerateWaveTraffic_def Let_def split: if_splits sum.splits option.splits)
  then show "((nodes_at, socket, now + delay, pktSize', pktCount', pktInterval', g'),
         (nodes_at, socket, now, pktSize, pktCount, pktInterval, g))
        \<in> measure (\<lambda>(nodes_at, socket, now, pktSize, pktCount, pktInterval, g). pktCount)"
    by simp
qed

declare GenerateWaveTraffic_chain.simps [simp del]

text \<open>The scheduler running one tick of each of the given sockets, one after the other,
  while no node moves.\<close>

fun GenerateWaveTraffic_round ::
  "Socket list \<Rightarrow> nat \<Rightarrow> nat \<Rightarrow> Time \<Rightarrow> Statics \<Rightarrow> error + (Statics \<times> Effect list)" where
  "GenerateWaveTraffic_round [] pktSize pktCount pktInterval g = Inr (g, [])"
| "GenerateWaveTraffic_round (socket # rest) pktSize pktCount pktInterval g =
     (case GenerateWaveTraffic socket pktSize pktCount pktInterval g of
        Inl e \<Rightarrow> Inl e
      | Inr (g', effects) \<Rightarrow>
          (case GenerateWaveTraffic_round rest pktSize pktCount pktInterval g' of
             Inl e \<Rightarrow> Inl e
           | Inr (g'', effects') \<Rightarrow> Inr (g'', effects @ effects')))"

text \<open>The transport handing the beacon of the node at table position \<open>fst d\<close> to the
  socket of the node at container position \<open>snd d\<close>, which runs the receive callback;
  then a list of such deliveries.\<close>

definition deliver :: "Experiment \<Rightarrow> Node list \<Rightarrow> nat \<Rightarrow> nat \<times> nat \<Rightarrow> Statics \<Rightarrow> error + Statics" where
  "deliver this n pktSize d g =
     (case ReceiveWavePacket this
             \<lparr>GetNode = n ! snd d,
              Recv_queue = [\<lparr>GetSize = pktSize,
                             PeekPacketTag = Some (fst (m_adhocTxInterfaces this ! fst d))\<rparr>]\<rparr> g of
        Inl e \<Rightarrow> Inl e
      | Inr (g', socket') \<Rightarrow> Inr g')"

fun deliver_all ::
  "Experiment \<Rightarrow> Node list \<Rightarrow> nat \<Rightarrow> (nat \<times> nat) list \<Rightarrow> Statics \<Rightarrow> error + Statics" where
  "deliver_all this n pktSize [] g = Inr g"
| "deliver_all this n pktSize (d # ds) g =
     (case deliver this n pktSize d g of
        Inl e \<Rightarrow> Inl e
      | Inr g' \<Rightarrow> deliver_all this n pktSize ds g')"

section \<open>Vocabulary of the properties\<close>

text \<open>The motion test of the three gates, on a velocity.\<close>

definition moving :: "Vector \<Rightarrow> bool" where
  "moving v = (vec_x v \<noteq> 0 \<or> vec_y v \<noteq> 0)"

definition node_moving :: "Node \<Rightarrow> bool" where
  "node_moving nd =
     (case GetObject_MobilityModel nd of None \<Rightarrow> False | Some m \<Rightarrow> moving (GetVelocity m))"

definition node_stationary :: "Node \<Rightarrow> bool" where
  "node_stationary nd =
     (case GetObject_MobilityModel nd of None \<Rightarrow> False | Some m \<Rightarrow> \<not> moving (GetVelocity m))"

definition has_mobility :: "Node \<Rightarrow> bool" where
  "has_mobility nd = (GetObject_MobilityModel nd \<noteq> None)"

text \<open>The squared Euclidean distance of two positions in the plane of x and y, as a real
  number; and the double that the arithmetic of \<open>getDistSq\<close> makes of it, for the position
  \<open>rxPos\<close> of its first node and \<open>txPos\<close> of its second. The test of the two callbacks
  is on the double: two nodes are within a squared range if the computed squared
  distance is at most the range.\<close>

definition planar_distSq :: "Vector \<Rightarrow> Vector \<Rightarrow> real" where
  "planar_distSq p q = (vec_x p - vec_x q)\<^sup>2 + (vec_y p - vec_y q)\<^sup>2"

definition double_distSq :: "Vector \<Rightarrow> Vector \<Rightarrow> real" where
  "double_distSq rxPos txPos =
     double_add
       (double_mul (double_sub (vec_x txPos) (vec_x rxPos)) (double_sub (vec_x txPos) (vec_x rxPos)))
       (double_mul (double_sub (vec_y txPos) (vec_y rxPos)) (double_sub (vec_y txPos) (vec_y rxPos)))"

definition within_range :: "real \<Rightarrow> Node \<Rightarrow> Node \<Rightarrow> bool" where
  "within_range rangeSq a b =
     (case GetObject_MobilityModel a of
        None \<Rightarrow> False
      | Some ma \<Rightarrow>
          (case GetObject_MobilityModel b of
             None \<Rightarrow> False
           | Some mb \<Rightarrow> double_distSq (GetPosition ma) (GetPosition mb) \<le> rangeSq))"

text \<open>Node ids are container positions: the transmitter nodes are the only nodes the
  program creates, so \<open>NodeList\<close> numbers them from zero in container order.\<close>

definition ids_are_indices :: "Node list \<Rightarrow> bool" where
  "ids_are_indices n = (map GetId n = [0 ..< length n])"

text \<open>The other nodes that a send of node \<open>tx\<close> counts as expected receivers: not the
  sender by id, moving, and within the squared range of the node at position \<open>tx\<close>.\<close>

definition expected_receiver :: "Node list \<Rightarrow> nat \<Rightarrow> real \<Rightarrow> Node \<Rightarrow> bool" where
  "expected_receiver n tx rangeSq object =
     (GetId object \<noteq> tx \<and> node_moving object \<and> within_range rangeSq (n ! tx) object)"

text \<open>The interface table has an entry for each of the \<open>m_nNodes\<close> nodes, as
  \<open>AssignIpAddresses\<close> leaves it.\<close>

definition interfaces_cover :: "Experiment \<Rightarrow> bool" where
  "interfaces_cover this = (nat (sint (m_nNodes this)) \<le> length (m_adhocTxInterfaces this))"

text \<open>The positions of the receive loop at which the table holds a given address.\<close>

definition matching_entries :: "Experiment \<Rightarrow> Ipv4Address \<Rightarrow> nat list" where
  "matching_entries this addr =
     [i \<leftarrow> [0 ..< nat (sint (m_nNodes this))]. fst (m_adhocTxInterfaces this ! i) = addr]"

text \<open>The times of the events of a chain, and the statement that none of them is at
  \<open>t\<close>.\<close>

definition event_times :: "error + (Statics \<times> (Time \<times> Effect) list) \<Rightarrow> Time list" where
  "event_times r = (case r of Inl e \<Rightarrow> [] | Inr (g, trace) \<Rightarrow> map fst trace)"

definition no_event_at :: "Time \<Rightarrow> error + (Statics \<times> (Time \<times> Effect) list) \<Rightarrow> bool" where
  "no_event_at t r = (t \<notin> set (event_times r))"

text \<open>Two samples, at \<open>t1\<close> and at \<open>t2\<close>, with no callback in between.\<close>

definition CheckThroughput_twice :: "Time \<Rightarrow> Time \<Rightarrow> Experiment \<Rightarrow> Statics \<Rightarrow> Experiment \<times> Statics \<times> Time" where
  "CheckThroughput_twice t1 t2 this g =
     (case CheckThroughput t1 this g of (this1, g1, delay1) \<Rightarrow> CheckThroughput t2 this1 g1)"

text \<open>The sender of a socket can run its tick on the container \<open>n\<close> and is moving.\<close>

definition sender_ready :: "Node list \<Rightarrow> Socket \<Rightarrow> bool" where
  "sender_ready n socket =
     (GetId (GetNode socket) < length n \<and> list_all has_mobility n \<and>
      node_moving (n ! GetId (GetNode socket)))"

text \<open>The interface table of the nodes \<open>n\<close>: one entry for each node, in container
  order, with addresses that differ.\<close>

definition table_for :: "Experiment \<Rightarrow> Node list \<Rightarrow> bool" where
  "table_for this n =
     (map snd (m_adhocTxInterfaces this) = n \<and> distinct (map fst (m_adhocTxInterfaces this)) \<and>
      nat (sint (m_nNodes this)) = length n)"

text \<open>A real number that is a double, and a node whose x and y coordinates are doubles.\<close>

definition is_double :: "real \<Rightarrow> bool" where
  "is_double x = (round_double x = x)"

definition double_position :: "Node \<Rightarrow> bool" where
  "double_position nd =
     (case GetObject_MobilityModel nd of
        None \<Rightarrow> False
      | Some m \<Rightarrow> is_double (vec_x (GetPosition m)) \<and> is_double (vec_y (GetPosition m)))"

text \<open>Every double is a multiple of the smallest positive one, 2 to the power -1074.\<close>

definition subnormal_bits :: nat where
  "subnormal_bits = 1074"

text \<open>Scenario 1: eleven nodes at double coordinates, node 0 the observer and nodes 1 to
  10 the transmitters, each of them moving and at distance 50 from the observer. The
  observer may move or stand still; only the transmitters run a tick.\<close>

definition at_distSq :: "real \<Rightarrow> Node \<Rightarrow> Node \<Rightarrow> bool" where
  "at_distSq d a b =
     (case GetObject_MobilityModel a of
        None \<Rightarrow> False
      | Some ma \<Rightarrow>
          (case GetObject_MobilityModel b of
             None \<Rightarrow> False
           | Some mb \<Rightarrow> planar_distSq (GetPosition ma) (GetPosition mb) = d))"

definition scenario1 :: "Node list \<Rightarrow> bool" where
  "scenario1 n =
     (length n = 11 \<and> ids_are_indices n \<and> list_all double_position n \<and>
      list_all node_moving (tl n) \<and> list_all (at_distSq (50 * 50) (n ! 0)) (tl n))"

definition transmitter_sockets :: "Node list \<Rightarrow> Socket list" where
  "transmitter_sockets n = map (\<lambda>nd. \<lparr>GetNode = nd, Recv_queue = []\<rparr>) (tl n)"

text \<open>\<open>wavePktSendCount\<close> and \<open>wavePktExpectedReceiveCount\<close> after a round.\<close>

definition counters_after :: "error + (Statics \<times> Effect list) \<Rightarrow> (int \<times> int) option" where
  "counters_after r =
     (case r of Inl e \<Rightarrow> None
      | Inr (g, effects) \<Rightarrow> Some (wavePktSendCount g, wavePktExpectedReceiveCount g))"

section \<open>A small world for the concrete instances\<close>

text \<open>Five vehicles at antenna height 1.5: node 1 is exactly 145 away from node 0
  (\<open>87\<^sup>2 + 116\<^sup>2 = 145\<^sup>2\<close>), node 2 is out of range, node 3 stands still and node 4
  moves along z only. The safety range is the default of 145.\<close>

definition mk_node :: "nat \<Rightarrow> real \<Rightarrow> real \<Rightarrow> Vector \<Rightarrow> Node" where
  "mk_node i px py v =
     \<lparr>GetId = i,
      GetObject_MobilityModel = Some \<lparr>GetPosition = Vector px py (3 / 2), GetVelocity = v\<rparr>\<rparr>"

definition example_nodes :: "Node list" where
  "example_nodes =
     [mk_node 0 0 0 (Vector 1 0 0),
      mk_node 1 87 116 (Vector 0 2 0),
      mk_node 2 200 0 (Vector 1 1 0),
      mk_node 3 1 1 (Vector 0 0 0),
      mk_node 4 2 2 (Vector 0 0 5)]"

definition example_statics :: Statics where
  "example_statics =
     \<lparr>wavePktSendCount = 0, wavePktReceiveCount = 0, wavePktInCoverageReceiveCount = 0,
      wavePktExpectedReceiveCount = 0, m_adhocTxNodes = example_nodes,
      m_txSafetyRangeSq = 145 * 145\<rparr>"

definition example_socket :: "nat \<Rightarrow> Packet list \<Rightarrow> Socket" where
  "example_socket i q = \<lparr>GetNode = example_nodes ! i, Recv_queue = q\<rparr>"

text \<open>Addresses 10.1.0.1 .. 10.1.0.5, in node order.\<close>

definition example_experiment :: Experiment where
  "example_experiment =
     \<lparr>bytesTotal = 0, packetsReceived = 0, m_nSinks = 10, m_protocolName = ''AODV'',
      m_txp = 20, m_nNodes = 5,
      m_adhocTxInterfaces =
        [(0x0A010001, example_nodes ! 0), (0x0A010002, example_nodes ! 1),
         (0x0A010003, example_nodes ! 2), (0x0A010004, example_nodes ! 3),
         (0x0A010005, example_nodes ! 4)],
      csv = []\<rparr>"

definition beacon_from :: "Ipv4Address \<Rightarrow> Packet" where
  "beacon_from addr = \<lparr>GetSize = 200, PeekPacketTag = Some addr\<rparr>"








text \<open>The same world at every time.\<close>

definition example_nodes_at :: "Time \<Rightarrow> Node list" where
  "example_nodes_at t = example_nodes"

text \<open>A world of scenario 1: the observer at the origin with velocity \<open>v\<close>, ten
  transmitters on the circle of radius 50 around it, the safety range 100, addresses
  10.1.0.1 .. 10.1.0.11, and the deliveries of each transmitter's beacon to the ten
  other nodes.\<close>

definition scenario1_nodes :: "Vector \<Rightarrow> Node list" where
  "scenario1_nodes v =
     [mk_node 0 0 0 v,
      mk_node 1 50 0 (Vector 1 0 0), mk_node 2 (- 50) 0 (Vector 1 0 0),
      mk_node 3 0 50 (Vector 0 1 0), mk_node 4 0 (- 50) (Vector 0 1 0),
      mk_node 5 30 40 (Vector 1 1 0), mk_node 6 (- 30) 40 (Vector 1 1 0),
      mk_node 7 30 (- 40) (Vector 1 1 0), mk_node 8 (- 30) (- 40) (Vector 1 1 0),
      mk_node 9 40 30 (Vector 2 0 0), mk_node 10 (- 40) (- 30) (Vector 0 2 0)]"

definition scenario1_statics :: "Vector \<Rightarrow> Statics" where
  "scenario1_statics v =
     \<lparr>wavePktSendCount = 0, wavePktReceiveCount = 0, wavePktInCoverageReceiveCount = 0,
      wavePktExpectedReceiveCount = 0, m_adhocTxNodes = scenario1_nodes v,
      m_txSafetyRangeSq = 100 * 100\<rparr>"

definition scenario1_experiment :: "Vector \<Rightarrow> Experiment" where
  "scenario1_experiment v =
     \<lparr>bytesTotal = 0, packetsReceived = 0, m_nSinks = 0, m_protocolName = ''NONE'',
      m_txp = 20, m_nNodes = 11,
      m_adhocTxInterfaces = zip [0x0A010001, 0x0A010002, 0x0A010003, 0x0A010004, 0x0A010005,
          0x0A010006, 0x0A010007, 0x0A010008, 0x0A010009, 0x0A01000A, 0x0A01000B]
        (scenario1_nodes v),
      csv = []\<rparr>"

definition all_deliveries :: "(nat \<times> nat) list" where
  "all_deliveries = concat (map (\<lambda>i. map (Pair i) (filter (\<lambda>j. j \<noteq> i) [0 ..< 11])) [1 ..< 11])"

section \<open>Properties of the functions\<close>

subsection \<open>Rounding\<close>

lemma pow2_pos: "0 < pow2 e"
  by (simp add: pow2_def)

lemma round_half_even_of_int: "round_half_even (of_int k) = k"
  by (simp add: round_half_even_def)

lemma round_double_0: "round_double 0 = 0"
  by (simp add: round_double_def)

lemma floor_log2_int:
  assumes "1 \<le> k" and "k \<le> 2 ^ 53"
  shows "0 \<le> floor_log2 (of_int k)" and "floor_log2 (of_int k) \<le> 53"
    and "floor_log2 (of_int k) = 53 \<Longrightarrow> k = 2 ^ 53"
proof -
  have k: "0 < k" using assms(1) by simp
  have fl: "floor_log2 (of_int k) = bitlen k - 1"
    using assms(1) by (simp add: floor_log2_def)
  from bitlen_bounds[OF k] have lo: "2 ^ nat (bitlen k - 1) \<le> k" and hi: "k < 2 ^ nat (bitlen k)"
    by simp_all
  have b1: "1 \<le> bitlen k"
    using k bitlen_eq_zero_iff[of k] bitlen_nonneg[of k] by linarith
  show "0 \<le> floor_log2 (of_int k)" using b1 fl by simp
  have "(2::int) ^ nat (bitlen k - 1) \<le> 2 ^ 53" using lo assms(2) by linarith
  then have le: "nat (bitlen k - 1) \<le> 53"
    by (rule power_le_imp_le_exp[rotated]) simp
  then show "floor_log2 (of_int k) \<le> 53" using fl b1 by simp
  assume "floor_log2 (of_int k) = 53"
  then have "nat (bitlen k - 1) = 53" using fl by simp
  then have "(2::int) ^ 53 \<le> k" using lo by simp
  then show "k = 2 ^ 53" using assms(2) by simp
qed

lemma round_double_scaled:
  assumes "x \<noteq> 0" and "max (floor_log2 \<bar>x\<bar>) (- 1022) - 52 = ue" and "x = of_int m * pow2 ue"
  shows "round_double x = x"
proof -
  have "x / pow2 ue = of_int m" using assms(3) pow2_pos[of ue] by simp
  then show ?thesis
    using assms by (simp add: round_double_def Let_def round_half_even_of_int)
qed

lemma round_double_pos_int:
  assumes "1 \<le> k" and "k \<le> 2 ^ 53"
  shows "round_double (of_int k) = of_int k" and "round_double (- of_int k) = - of_int k"
proof -
  define e where "e = floor_log2 (of_int k)"
  note b = floor_log2_int[OF assms, folded e_def]
  define ue where "ue = e - 52"
  have ue: "max e (- 1022) - 52 = ue" using b(1) by (simp add: ue_def)
  have "\<exists>m. (of_int k :: real) = of_int m * pow2 ue"
  proof (cases "ue \<le> 0")
    case True
    have "(of_int k :: real) = of_int (k * 2 ^ nat (- ue)) * pow2 ue"
      using True by (cases "ue = 0") (simp_all add: pow2_def)
    then show ?thesis by blast
  next
    case False
    then have "e = 53" using b(2) by (simp add: ue_def)
    then have k: "k = 2 ^ 53" using b(3) by simp
    have "ue = 1" using \<open>e = 53\<close> by (simp add: ue_def)
    then have "(of_int k :: real) = of_int (2 ^ 52) * pow2 ue"
      using k by (simp add: pow2_def)
    then show ?thesis by blast
  qed
  then obtain m where m: "(of_int k :: real) = of_int m * pow2 ue" by blast
  have nz: "(of_int k :: real) \<noteq> 0" using assms(1) by simp
  have a: "\<bar>of_int k :: real\<bar> = of_int k" using assms(1) by simp
  show "round_double (of_int k) = of_int k"
    using round_double_scaled[OF nz _ m] ue a by (simp add: e_def)
  have m': "- (of_int k :: real) = of_int (- m) * pow2 ue" using m by simp
  have nz': "- (of_int k :: real) \<noteq> 0" using nz by simp
  show "round_double (- of_int k) = - of_int k"
    using round_double_scaled[OF nz' _ m'] ue a by (simp add: e_def)
qed

lemma round_double_int:
  assumes "\<bar>k\<bar> \<le> 2 ^ 53"
  shows "round_double (of_int k) = of_int k"
proof -
  consider "k = 0" | "1 \<le> k" | "k \<le> - 1" by linarith
  then show ?thesis
  proof cases
    case 1
    then show ?thesis by (simp add: round_double_0)
  next
    case 2
    then show ?thesis using round_double_pos_int(1)[of k] assms by simp
  next
    case 3
    then have "1 \<le> - k" "- k \<le> 2 ^ 53" using assms by simp_all
    from round_double_pos_int(2)[OF this] show ?thesis by simp
  qed
qed

lemma round_double_integral:
  assumes "x = of_int \<lfloor>x\<rfloor>" and "\<bar>x\<bar> \<le> 2 ^ 53"
  shows "round_double x = x"
proof -
  have "\<bar>real_of_int \<lfloor>x\<rfloor>\<bar> \<le> 2 ^ 53" using assms by simp
  then have "\<bar>\<lfloor>x\<rfloor>\<bar> \<le> 2 ^ 53"
    by (metis (mono_tags) of_int_abs of_int_le_iff of_int_numeral of_int_power)
  from round_double_int[OF this] assms(1) show ?thesis by simp
qed

lemma round_double_half: "round_double (1 / 2) = 1 / 2"
  by (simp add: round_double_def floor_log2_def pow2_def round_half_even_def compute_bitlen)

lemma pow2_shift:
  assumes "- int N \<le> ue"
  shows "pow2 ue * 2 ^ N = 2 ^ nat (ue + int N)"
proof (cases "0 \<le> ue")
  case True
  then have "nat (ue + int N) = nat ue + N" by simp
  then show ?thesis using True by (simp add: pow2_def power_add)
next
  case False
  then have "N = nat (ue + int N) + nat (- ue)" using assms by simp
  then have "(2::real) ^ N = 2 ^ nat (ue + int N) * 2 ^ nat (- ue)"
    by (metis power_add)
  then show ?thesis using False by (simp add: pow2_def)
qed

lemma is_double_dyadic:
  assumes "is_double x"
  shows "\<exists>k::int. x * 2 ^ subnormal_bits = of_int k"
proof (cases "x = 0")
  case True
  then show ?thesis by (intro exI[of _ 0]) simp
next
  case False
  define ue where "ue = max (floor_log2 \<bar>x\<bar>) (- 1022) - 52"
  define m where "m = round_half_even (x / pow2 ue)"
  have ue: "- int subnormal_bits \<le> ue" by (simp add: ue_def subnormal_bits_def)
  have "x = of_int m * pow2 ue"
    using assms False by (simp add: is_double_def round_double_def Let_def ue_def m_def)
  then have "x * 2 ^ subnormal_bits = of_int m * (pow2 ue * 2 ^ subnormal_bits)" by simp
  also have "\<dots> = of_int (m * 2 ^ nat (ue + int subnormal_bits))"
    by (simp only: pow2_shift[OF ue]) simp
  finally show ?thesis by blast
qed

lemma even_of_four_dvd_squares:
  fixes A B :: int
  assumes "4 dvd A\<^sup>2 + B\<^sup>2"
  shows "even A \<and> even B"
proof -
  have sq_even: "\<exists>t. X\<^sup>2 = 4 * t" if "even X" for X :: int
  proof -
    from that obtain a where "X = 2 * a" by (elim evenE)
    then have "X\<^sup>2 = 4 * a\<^sup>2" by (simp add: power2_eq_square)
    then show ?thesis by blast
  qed
  have sq_odd: "\<exists>t. X\<^sup>2 = 4 * t + 1" if "odd X" for X :: int
  proof -
    from that obtain a where "X = 2 * a + 1" by (elim oddE)
    then have "X\<^sup>2 = 4 * (a\<^sup>2 + a) + 1" by (simp add: power2_eq_square algebra_simps)
    then show ?thesis by blast
  qed
  show ?thesis
  proof (rule ccontr)
    assume "\<not> (even A \<and> even B)"
    then consider "odd A" "even B" | "even A" "odd B" | "odd A" "odd B" by blast
    then show False
    proof cases
      case 1
      from sq_odd[OF 1(1)] sq_even[OF 1(2)] obtain s t where "A\<^sup>2 = 4 * s + 1" "B\<^sup>2 = 4 * t" by blast
      then show False using assms by presburger
    next
      case 2
      from sq_even[OF 2(1)] sq_odd[OF 2(2)] obtain s t where "A\<^sup>2 = 4 * s" "B\<^sup>2 = 4 * t + 1" by blast
      then show False using assms by presburger
    next
      case 3
      from sq_odd[OF 3(1)] sq_odd[OF 3(2)] obtain s t where "A\<^sup>2 = 4 * s + 1" "B\<^sup>2 = 4 * t + 1" by blast
      then show False using assms by presburger
    qed
  qed
qed

lemma two_power_dvd_of_squares:
  fixes A B c :: int
  shows "A\<^sup>2 + B\<^sup>2 = c * 4 ^ N \<Longrightarrow> 2 ^ N dvd A \<and> 2 ^ N dvd B"
proof (induction N arbitrary: A B)
  case 0
  then show ?case by simp
next
  case (Suc N)
  then have "4 dvd A\<^sup>2 + B\<^sup>2" by simp
  from even_of_four_dvd_squares[OF this] obtain a b where ab: "A = 2 * a" "B = 2 * b"
    by (auto elim!: evenE)
  then have "4 * (a\<^sup>2 + b\<^sup>2) = 4 * (c * 4 ^ N)"
    using Suc.prems by (simp add: power2_eq_square algebra_simps)
  then have "a\<^sup>2 + b\<^sup>2 = c * 4 ^ N" by simp
  from Suc.IH[OF this] show ?case using ab by simp
qed

lemma dyadic_on_integer_circle:
  fixes a b :: real and A B c :: int
  assumes "a * 2 ^ N = of_int A" and "b * 2 ^ N = of_int B" and "a\<^sup>2 + b\<^sup>2 = of_int c"
  shows "a = of_int \<lfloor>a\<rfloor>" and "b = of_int \<lfloor>b\<rfloor>"
proof -
  have "(a * 2 ^ N)\<^sup>2 + (b * 2 ^ N)\<^sup>2 = (a\<^sup>2 + b\<^sup>2) * 4 ^ N"
    by (simp add: power_mult_distrib algebra_simps flip: power_mult power2_eq_square)
       (simp add: power_mult power2_eq_square algebra_simps flip: power_mult_distrib)
  then have "real_of_int (A\<^sup>2 + B\<^sup>2) = real_of_int (c * 4 ^ N)"
    using assms by simp
  then have "A\<^sup>2 + B\<^sup>2 = c * 4 ^ N" by (simp only: of_int_eq_iff)
  from two_power_dvd_of_squares[OF this] obtain a' b' where ab: "A = 2 ^ N * a'" "B = 2 ^ N * b'"
    by (auto elim!: dvdE)
  have "a * 2 ^ N = of_int a' * 2 ^ N" using assms(1) ab(1) by simp
  then have "a = of_int a'" by simp
  then show "a = of_int \<lfloor>a\<rfloor>" by simp
  have "b * 2 ^ N = of_int b' * 2 ^ N" using assms(2) ab(2) by simp
  then have "b = of_int b'" by simp
  then show "b = of_int \<lfloor>b\<rfloor>" by simp
qed

subsection \<open>Distance\<close>

lemma getDistSq_Some:
  "GetObject_MobilityModel a = Some ma \<Longrightarrow> GetObject_MobilityModel b = Some mb \<Longrightarrow>
   getDistSq a b = Inr (double_distSq (GetPosition ma) (GetPosition mb))"
  by (simp add: getDistSq_def double_distSq_def Let_def)

lemma getDistSq_within:
  "has_mobility a \<Longrightarrow> has_mobility b \<Longrightarrow>
   \<exists>d. getDistSq a b = Inr d \<and> (d \<le> r \<longleftrightarrow> within_range r a b)"
  by (auto simp: getDistSq_Some has_mobility_def within_range_def)

lemmas double_eval =
  double_sub_def double_mul_def double_add_def double_distSq_def round_double_integral



text \<open>Where the coordinate differences are integers of moderate size no operation of
  \<open>getDistSq\<close> rounds, and the computed squared distance is the Euclidean one.\<close>

lemma square_le_2_52:
  fixes k :: int
  assumes "\<bar>k\<bar> \<le> 2 ^ 26"
  shows "k * k \<le> 2 ^ 52" and "0 \<le> k * k"
proof -
  have "\<bar>k\<bar> * \<bar>k\<bar> \<le> 2 ^ 26 * 2 ^ 26"
    using assms by (intro mult_mono) simp_all
  then show "k * k \<le> 2 ^ 52" by (simp add: abs_mult_self_eq)
  show "0 \<le> k * k" by simp
qed

lemma double_distSq_exact:
  assumes "vec_x q - vec_x p = of_int dx" and "vec_y q - vec_y p = of_int dy"
    and "\<bar>dx\<bar> \<le> 2 ^ 26" and "\<bar>dy\<bar> \<le> 2 ^ 26"
  shows "double_distSq p q = planar_distSq p q"
proof -
  have sx: "round_double (of_int dx) = of_int dx"
    using assms(3) by (intro round_double_int) simp
  have sy: "round_double (of_int dy) = of_int dy"
    using assms(4) by (intro round_double_int) simp
  note bx = square_le_2_52[OF assms(3)] and by' = square_le_2_52[OF assms(4)]
  have mx: "round_double (of_int (dx * dx)) = of_int (dx * dx)"
    using bx by (intro round_double_int) simp
  have my: "round_double (of_int (dy * dy)) = of_int (dy * dy)"
    using by' by (intro round_double_int) simp
  have ad: "round_double (of_int (dx * dx + dy * dy)) = of_int (dx * dx + dy * dy)"
    using bx by' by (intro round_double_int) simp
  have "double_distSq p q = of_int (dx * dx + dy * dy)"
    unfolding double_distSq_def double_sub_def double_mul_def double_add_def assms(1,2) sx sy
    using mx my ad by (simp del: of_int_mult of_int_add add: of_int_mult[symmetric] of_int_add[symmetric])
  also have "\<dots> = (vec_x q - vec_x p)\<^sup>2 + (vec_y q - vec_y p)\<^sup>2"
    unfolding assms(1,2) by (simp add: power2_eq_square)
  also have "\<dots> = planar_distSq p q"
    by (simp add: planar_distSq_def power2_commute)
  finally show ?thesis .
qed

subsection \<open>The generator\<close>

lemma GenerateWaveTraffic_for_count:
  "list_all has_mobility xs \<Longrightarrow> tx < length n \<Longrightarrow> has_mobility (n ! tx) \<Longrightarrow>
   GenerateWaveTraffic_for xs n tx g =
     Inr (g\<lparr>wavePktExpectedReceiveCount :=
              wavePktExpectedReceiveCount g +
              int (length (filter (expected_receiver n tx (m_txSafetyRangeSq g)) xs))\<rparr>)"
proof (induction xs arbitrary: g)
  case Nil
  then show ?case by simp
next
  case (Cons object rest)
  from Cons.prems obtain d where d: "getDistSq (n ! tx) object = Inr d"
    "d \<le> m_txSafetyRangeSq g \<longleftrightarrow> within_range (m_txSafetyRangeSq g) (n ! tx) object"
    using getDistSq_within[of "n ! tx" object "m_txSafetyRangeSq g"] by auto
  from Cons.prems obtain m where m: "GetObject_MobilityModel object = Some m"
    by (auto simp: has_mobility_def)
  have IH: "\<And>g. GenerateWaveTraffic_for rest n tx g =
     Inr (g\<lparr>wavePktExpectedReceiveCount :=
              wavePktExpectedReceiveCount g +
              int (length (filter (expected_receiver n tx (m_txSafetyRangeSq g)) rest))\<rparr>)"
    using Cons by simp
  have c: "expected_receiver n tx (m_txSafetyRangeSq g) object \<longleftrightarrow>
      GetId object \<noteq> tx \<and> (vec_x (GetVelocity m) \<noteq> 0 \<or> vec_y (GetVelocity m) \<noteq> 0) \<and>
      d \<le> m_txSafetyRangeSq g"
    using d(2) m by (simp add: expected_receiver_def node_moving_def moving_def)
  show ?case
    using d(1) m Cons.prems(2) c
    by (simp add: IH Let_def Get_def)
qed

lemma ids_are_indices_nth:
  assumes "ids_are_indices n" and "j < length n"
  shows "GetId (n ! j) = j"
proof -
  have "GetId (n ! j) = map GetId n ! j" using assms(2) by simp
  also have "\<dots> = [0 ..< length n] ! j" using assms(1) by (simp add: ids_are_indices_def)
  also have "\<dots> = j" using assms(2) by simp
  finally show ?thesis .
qed

lemma count_by_index:
  assumes "ids_are_indices n"
  shows "length (filter (expected_receiver n tx r) n) =
         length [j \<leftarrow> [0 ..< length n].
                   j \<noteq> tx \<and> node_moving (n ! j) \<and> within_range r (n ! tx) (n ! j)]"
proof -
  have "filter (expected_receiver n tx r) n =
        filter (expected_receiver n tx r) (map ((!) n) [0 ..< length n])"
    by (simp add: map_nth)
  also have "\<dots> = map ((!) n) (filter (expected_receiver n tx r \<circ> (!) n) [0 ..< length n])"
    by (simp add: filter_map)
  finally have "length (filter (expected_receiver n tx r) n) =
      length (filter (expected_receiver n tx r \<circ> (!) n) [0 ..< length n])"
    by simp
  also have "filter (expected_receiver n tx r \<circ> (!) n) [0 ..< length n] =
      [j \<leftarrow> [0 ..< length n].
         j \<noteq> tx \<and> node_moving (n ! j) \<and> within_range r (n ! tx) (n ! j)]"
    by (rule filter_cong) (auto simp: expected_receiver_def ids_are_indices_nth[OF assms])
  finally show ?thesis .
qed

lemma GenerateWaveTraffic_moving:
  assumes "pktCount > 0"
    and "GetId (GetNode socket) < length (m_adhocTxNodes g)"
    and "list_all has_mobility (m_adhocTxNodes g)"
    and "node_moving (m_adhocTxNodes g ! GetId (GetNode socket))"
  shows "GenerateWaveTraffic socket pktSize pktCount pktInterval g =
     Inr (g\<lparr>wavePktSendCount := wavePktSendCount g + 1,
            wavePktExpectedReceiveCount := wavePktExpectedReceiveCount g +
              int (length (filter (expected_receiver (m_adhocTxNodes g) (GetId (GetNode socket))
                                     (m_txSafetyRangeSq g))
                     (m_adhocTxNodes g)))\<rparr>,
          [Send (Create_Packet pktSize), Schedule pktInterval pktSize (pktCount - 1) pktInterval])"
proof -
  let ?n = "m_adhocTxNodes g" and ?tx = "GetId (GetNode socket)"
  let ?g1 = "g\<lparr>wavePktSendCount := wavePktSendCount g + 1\<rparr>"
  from assms(4) obtain m where m: "GetObject_MobilityModel (?n ! ?tx) = Some m"
    and mv: "vec_x (GetVelocity m) \<noteq> 0 \<or> vec_y (GetVelocity m) \<noteq> 0"
    by (auto simp: node_moving_def moving_def split: option.splits)
  have hm: "has_mobility (?n ! ?tx)" using m by (simp add: has_mobility_def)
  have loop: "GenerateWaveTraffic_for ?n ?n ?tx ?g1 =
     Inr (?g1\<lparr>wavePktExpectedReceiveCount := wavePktExpectedReceiveCount ?g1 +
            int (length (filter (expected_receiver ?n ?tx (m_txSafetyRangeSq ?g1)) ?n))\<rparr>)"
    using assms(2,3) hm by (intro GenerateWaveTraffic_for_count) simp_all
  show ?thesis
    unfolding GenerateWaveTraffic_def
    using assms(1,2) m mv by (auto simp: Let_def Get_def loop)
qed

lemma GenerateWaveTraffic_stationary:
  assumes "pktCount > 0"
    and "GetId (GetNode socket) < length (m_adhocTxNodes g)"
    and "node_stationary (m_adhocTxNodes g ! GetId (GetNode socket))"
  shows "GenerateWaveTraffic socket pktSize pktCount pktInterval g =
     Inr (g, [Schedule pktInterval pktSize (pktCount - 1) pktInterval])"
  using assms unfolding GenerateWaveTraffic_def
  by (auto simp: Let_def Get_def node_stationary_def moving_def split: option.splits)

subsection \<open>The receive handler\<close>

lemma ReceiveWavePacket_for_count:
  "has_mobility node \<Longrightarrow> \<forall>i\<in>set is. i < length ifs \<Longrightarrow>
   \<forall>i\<in>set is. fst (ifs ! i) = addr \<longrightarrow> has_mobility (snd (ifs ! i)) \<Longrightarrow>
   ReceiveWavePacket_for ifs node addr is g =
     Inr (g\<lparr>wavePktInCoverageReceiveCount :=
              wavePktInCoverageReceiveCount g +
              int (length [i \<leftarrow> is. fst (ifs ! i) = addr \<and>
                                   within_range (m_txSafetyRangeSq g) node (snd (ifs ! i))])\<rparr>)"
proof (induction "is" arbitrary: g)
  case Nil
  then show ?case by simp
next
  case (Cons i rest)
  have IH: "\<And>g. ReceiveWavePacket_for ifs node addr rest g =
     Inr (g\<lparr>wavePktInCoverageReceiveCount :=
              wavePktInCoverageReceiveCount g +
              int (length [i \<leftarrow> rest. fst (ifs ! i) = addr \<and>
                                   within_range (m_txSafetyRangeSq g) node (snd (ifs ! i))])\<rparr>)"
    using Cons by simp
  have i: "i < length ifs" using Cons.prems(2) by simp
  show ?case
  proof (cases "fst (ifs ! i) = addr")
    case False
    then show ?thesis using i by (auto simp: IH Get_interface_def)
  next
    case True
    then have "has_mobility (snd (ifs ! i))" using Cons.prems(3) by simp
    then obtain d where d: "getDistSq node (snd (ifs ! i)) = Inr d"
      "d \<le> m_txSafetyRangeSq g \<longleftrightarrow> within_range (m_txSafetyRangeSq g) node (snd (ifs ! i))"
      using getDistSq_within[of node "snd (ifs ! i)" "m_txSafetyRangeSq g"] Cons.prems(1) by auto
    show ?thesis using i True d by (auto simp: IH Get_interface_def Let_def)
  qed
qed

lemma ReceiveWavePacket_body_stationary:
  "node_stationary node \<Longrightarrow>
   ReceiveWavePacket_body this node packet g =
     Inr (g\<lparr>wavePktReceiveCount := wavePktReceiveCount g + 1\<rparr>)"
  by (auto simp: ReceiveWavePacket_body_def node_stationary_def moving_def Let_def split: option.splits)

lemma ReceiveWavePacket_body_untagged:
  "has_mobility node \<Longrightarrow> PeekPacketTag packet = None \<Longrightarrow>
   ReceiveWavePacket_body this node packet g =
     Inr (g\<lparr>wavePktReceiveCount := wavePktReceiveCount g + 1\<rparr>)"
  by (auto simp: ReceiveWavePacket_body_def has_mobility_def Let_def split: option.splits)

lemma ReceiveWavePacket_body_moving:
  assumes "node_moving node" and "PeekPacketTag packet = Some addr"
    and "interfaces_cover this"
    and "\<forall>i\<in>set (matching_entries this addr). has_mobility (snd (m_adhocTxInterfaces this ! i))"
  shows "ReceiveWavePacket_body this node packet g =
     Inr (g\<lparr>wavePktReceiveCount := wavePktReceiveCount g + 1,
            wavePktInCoverageReceiveCount := wavePktInCoverageReceiveCount g +
              int (length [i \<leftarrow> matching_entries this addr.
                     within_range (m_txSafetyRangeSq g) node (snd (m_adhocTxInterfaces this ! i))])\<rparr>)"
proof -
  let ?ifs = "m_adhocTxInterfaces this" and ?is = "[0 ..< nat (sint (m_nNodes this))]"
  let ?g1 = "g\<lparr>wavePktReceiveCount := wavePktReceiveCount g + 1\<rparr>"
  from assms(1) obtain m where m: "GetObject_MobilityModel node = Some m"
    and mv: "vec_x (GetVelocity m) \<noteq> 0 \<or> vec_y (GetVelocity m) \<noteq> 0"
    by (auto simp: node_moving_def moving_def split: option.splits)
  have hm: "has_mobility node" using m by (simp add: has_mobility_def)
  have r: "\<forall>i\<in>set ?is. i < length ?ifs" using assms(3) by (auto simp: interfaces_cover_def)
  have h: "\<forall>i\<in>set ?is. fst (?ifs ! i) = addr \<longrightarrow> has_mobility (snd (?ifs ! i))"
    using assms(4) by (auto simp: matching_entries_def)
  have loop: "ReceiveWavePacket_for ?ifs node addr ?is ?g1 =
     Inr (?g1\<lparr>wavePktInCoverageReceiveCount :=
              wavePktInCoverageReceiveCount ?g1 +
              int (length [i \<leftarrow> ?is. fst (?ifs ! i) = addr \<and>
                                   within_range (m_txSafetyRangeSq ?g1) node (snd (?ifs ! i))])\<rparr>)"
    using hm r h by (rule ReceiveWavePacket_for_count)
  have f: "[i \<leftarrow> ?is. fst (?ifs ! i) = addr \<and> within_range (m_txSafetyRangeSq g) node (snd (?ifs ! i))]
      = [i \<leftarrow> matching_entries this addr. within_range (m_txSafetyRangeSq g) node (snd (?ifs ! i))]"
    by (simp add: matching_entries_def conj_commute)
  show ?thesis
    unfolding ReceiveWavePacket_body_def using m mv assms(2) by (auto simp: Let_def loop f)
qed


lemma ReceiveWavePacket_body_total:
  assumes "has_mobility node" and "interfaces_cover this"
    and "list_all (\<lambda>xx. has_mobility (snd xx)) (m_adhocTxInterfaces this)"
  shows "\<exists>k. ReceiveWavePacket_body this node packet g =
     Inr (g\<lparr>wavePktReceiveCount := wavePktReceiveCount g + 1,
            wavePktInCoverageReceiveCount := wavePktInCoverageReceiveCount g + int k\<rparr>)
     \<and> (node_stationary node \<longrightarrow> k = 0)"
proof (cases "node_stationary node")
  case True
  then show ?thesis
    using ReceiveWavePacket_body_stationary[of node this packet g] by (intro exI[of _ 0]) simp
next
  case False
  then have mv: "node_moving node"
    using assms(1) by (auto simp: node_stationary_def node_moving_def has_mobility_def)
  show ?thesis
  proof (cases "PeekPacketTag packet")
    case None
    then show ?thesis
      using ReceiveWavePacket_body_untagged[OF assms(1), of packet this g] False
      by (intro exI[of _ 0]) simp
  next
    case (Some addr)
    have "\<forall>i\<in>set (matching_entries this addr). has_mobility (snd (m_adhocTxInterfaces this ! i))"
      using assms(2,3) by (auto simp: matching_entries_def interfaces_cover_def list_all_length)
    from ReceiveWavePacket_body_moving[OF mv Some assms(2) this, of g] False
    show ?thesis by blast
  qed
qed

lemma ReceiveWavePacket_while_total:
  assumes "has_mobility node" and "interfaces_cover this"
    and "list_all (\<lambda>xx. has_mobility (snd xx)) (m_adhocTxInterfaces this)"
  shows "\<exists>k. ReceiveWavePacket_while this node queue g =
     Inr (g\<lparr>wavePktReceiveCount := wavePktReceiveCount g + int (length queue),
            wavePktInCoverageReceiveCount := wavePktInCoverageReceiveCount g + int k\<rparr>)
     \<and> (node_stationary node \<longrightarrow> k = 0)"
proof (induction queue arbitrary: g)
  case Nil
  show ?case by (intro exI[of _ 0]) simp
next
  case (Cons packet queue)
  from ReceiveWavePacket_body_total[OF assms, of packet g]
  obtain k1 where b: "ReceiveWavePacket_body this node packet g =
     Inr (g\<lparr>wavePktReceiveCount := wavePktReceiveCount g + 1,
            wavePktInCoverageReceiveCount := wavePktInCoverageReceiveCount g + int k1\<rparr>)"
    and s1: "node_stationary node \<longrightarrow> k1 = 0" by blast
  let ?g1 = "g\<lparr>wavePktReceiveCount := wavePktReceiveCount g + 1,
            wavePktInCoverageReceiveCount := wavePktInCoverageReceiveCount g + int k1\<rparr>"
  from Cons[of ?g1] obtain k2 where w: "ReceiveWavePacket_while this node queue ?g1 =
     Inr (?g1\<lparr>wavePktReceiveCount := wavePktReceiveCount ?g1 + int (length queue),
            wavePktInCoverageReceiveCount := wavePktInCoverageReceiveCount ?g1 + int k2\<rparr>)"
    and s2: "node_stationary node \<longrightarrow> k2 = 0" by blast
  show ?case
    using b w s1 s2 by (intro exI[of _ "k1 + k2"]) (simp add: add.assoc add.commute)
qed

lemma upt_five: "[0 ..< 5] = [0, 1, 2, 3, 4]"
  by (simp add: upt_rec)

subsection \<open>The chain of one generator\<close>

lemma chain_example: "GenerateWaveTraffic_chain example_nodes_at (example_socket 0 []) 1 200 3 1 example_statics =
  Inr (example_statics\<lparr>wavePktSendCount := 3, wavePktExpectedReceiveCount := 3\<rparr>,
       [(1, Send (Create_Packet 200)), (1, Schedule 1 200 2 1),
        (2, Send (Create_Packet 200)), (2, Schedule 1 200 1 1),
        (3, Send (Create_Packet 200)), (3, Schedule 1 200 0 1),
        (4, Close)])"
  by (simp add: GenerateWaveTraffic_chain.simps example_nodes_at_def example_socket_def
      example_statics_def example_nodes_def mk_node_def
      GenerateWaveTraffic_def Get_def getDistSq_def Create_Packet_def Let_def double_eval)

lemma GenerateWaveTraffic_zero:
  "GenerateWaveTraffic socket pktSize 0 pktInterval g = Inr (g, [Close])"
  by (simp add: GenerateWaveTraffic_def)

lemma sender_ready_tick:
  assumes "sender_ready n socket" and "0 < pktCount"
  shows "\<exists>g'. GenerateWaveTraffic socket pktSize pktCount pktInterval (g\<lparr>m_adhocTxNodes := n\<rparr>) =
      Inr (g', [Send (Create_Packet pktSize), Schedule pktInterval pktSize (pktCount - 1) pktInterval])
      \<and> wavePktSendCount g' = wavePktSendCount g + 1"
  using GenerateWaveTraffic_moving[of pktCount socket "g\<lparr>m_adhocTxNodes := n\<rparr>" pktSize pktInterval] assms
  by (simp add: sender_ready_def)

subsection \<open>Scenario 1\<close>

lemma square_diff_le: "(a - b)\<^sup>2 \<le> 2 * (c - a)\<^sup>2 + 2 * (c - b)\<^sup>2" for a b c :: real
  using zero_le_power2[of "a + b - 2 * c"] by (simp add: power2_eq_square algebra_simps)

lemma scenario1_transmitter:
  assumes "scenario1 n" and "1 \<le> i" and "i < 11"
  shows "node_moving (n ! i)" and "at_distSq (50 * 50) (n ! 0) (n ! i)"
proof -
  have len: "length n = 11" using assms(1) by (simp add: scenario1_def)
  then have i: "i - 1 < length (tl n)" using assms(2,3) by simp
  have nth: "tl n ! (i - 1) = n ! i"
    using assms(2) len i by (simp add: nth_tl)
  have "list_all node_moving (tl n)" "list_all (at_distSq (50 * 50) (n ! 0)) (tl n)"
    using assms(1) by (simp_all add: scenario1_def)
  then show "node_moving (n ! i)" "at_distSq (50 * 50) (n ! 0) (n ! i)"
    using i nth by (auto simp: list_all_length)
qed

lemma scenario1_double_position:
  assumes "scenario1 n" and "i < 11"
  shows "double_position (n ! i)"
  using assms by (simp add: scenario1_def list_all_length)

lemma scenario1_has_mobility:
  assumes "scenario1 n" and "i < 11"
  shows "has_mobility (n ! i)"
  using scenario1_double_position[OF assms]
  by (auto simp: double_position_def has_mobility_def split: option.splits)

text \<open>In scenario 1 every node is at an integer offset from the observer: the coordinates
  are doubles, so the offsets are multiples of a power of two, and two such numbers whose
  squares add up to 2500 are integers.\<close>

lemma abs_le_50:
  fixes a b :: int
  assumes "(of_int a)\<^sup>2 + (of_int b)\<^sup>2 \<le> (2500 :: real)"
  shows "\<bar>a\<bar> \<le> 50"
proof -
  have "(of_int (a\<^sup>2 + b\<^sup>2) :: real) \<le> of_int 2500" using assms by simp
  then have "a\<^sup>2 + b\<^sup>2 \<le> 2500" by (simp only: of_int_le_iff)
  then have "a\<^sup>2 \<le> 2500" using zero_le_power2[of b] by linarith
  then have "a\<^sup>2 \<le> 50\<^sup>2" by simp
  then have "\<bar>a\<bar> \<le> \<bar>50\<bar>" by (simp only: abs_le_square_iff)
  then show ?thesis by simp
qed

lemma scenario1_offsets:
  assumes "scenario1 n" and "GetObject_MobilityModel (n ! 0) = Some m0" and "k < 11"
  shows "\<exists>m a b. GetObject_MobilityModel (n ! k) = Some m \<and>
           vec_x (GetPosition m) - vec_x (GetPosition m0) = of_int a \<and>
           vec_y (GetPosition m) - vec_y (GetPosition m0) = of_int b \<and>
           (of_int a)\<^sup>2 + (of_int b)\<^sup>2 \<le> (2500 :: real)"
proof (cases "k = 0")
  case True
  then show ?thesis using assms(2) by (intro exI[of _ m0] exI[of _ 0]) simp
next
  case False
  then have k1: "1 \<le> k" by simp
  from scenario1_double_position[OF assms(1), of 0] assms(2)
  have d0: "is_double (vec_x (GetPosition m0))" "is_double (vec_y (GetPosition m0))"
    by (simp_all add: double_position_def)
  from scenario1_double_position[OF assms(1,3)]
  obtain m where m: "GetObject_MobilityModel (n ! k) = Some m"
    and dk: "is_double (vec_x (GetPosition m))" "is_double (vec_y (GetPosition m))"
    by (auto simp: double_position_def split: option.splits)
  from scenario1_transmitter(2)[OF assms(1) k1 assms(3)] assms(2) m
  have dist: "planar_distSq (GetPosition m0) (GetPosition m) = 50 * 50"
    by (simp add: at_distSq_def)
  define ar where "ar = vec_x (GetPosition m) - vec_x (GetPosition m0)"
  define br where "br = vec_y (GetPosition m) - vec_y (GetPosition m0)"
  have circle: "ar\<^sup>2 + br\<^sup>2 = of_int 2500"
    using dist by (simp add: planar_distSq_def ar_def br_def power2_commute)
  from is_double_dyadic[OF d0(1)] is_double_dyadic[OF dk(1)]
  obtain X0 Xk :: int where "vec_x (GetPosition m0) * 2 ^ subnormal_bits = of_int X0"
    "vec_x (GetPosition m) * 2 ^ subnormal_bits = of_int Xk" by blast
  then have A: "ar * 2 ^ subnormal_bits = of_int (Xk - X0)"
    by (simp add: ar_def algebra_simps)
  from is_double_dyadic[OF d0(2)] is_double_dyadic[OF dk(2)]
  obtain Y0 Yk :: int where "vec_y (GetPosition m0) * 2 ^ subnormal_bits = of_int Y0"
    "vec_y (GetPosition m) * 2 ^ subnormal_bits = of_int Yk" by blast
  then have B: "br * 2 ^ subnormal_bits = of_int (Yk - Y0)"
    by (simp add: br_def algebra_simps)
  note ints = dyadic_on_integer_circle[OF A B circle]
  have "(of_int \<lfloor>ar\<rfloor>)\<^sup>2 + (of_int \<lfloor>br\<rfloor>)\<^sup>2 \<le> (2500 :: real)"
    using circle ints by simp
  then show ?thesis
    using m ints by (intro exI[of _ m] exI[of _ "\<lfloor>ar\<rfloor>"] exI[of _ "\<lfloor>br\<rfloor>"]) (simp add: ar_def br_def)
qed

lemma scenario1_within_range:
  assumes "scenario1 n" and "i < 11" and "j < 11"
  shows "within_range (100 * 100) (n ! i) (n ! j)"
proof -
  from scenario1_has_mobility[OF assms(1), of 0] obtain m0
    where m0: "GetObject_MobilityModel (n ! 0) = Some m0"
    by (auto simp: has_mobility_def)
  from scenario1_offsets[OF assms(1) m0 assms(2)]
  obtain mi ai bi where mi: "GetObject_MobilityModel (n ! i) = Some mi"
    and xi: "vec_x (GetPosition mi) - vec_x (GetPosition m0) = of_int ai"
    and yi: "vec_y (GetPosition mi) - vec_y (GetPosition m0) = of_int bi"
    and ci: "(of_int ai)\<^sup>2 + (of_int bi)\<^sup>2 \<le> (2500 :: real)" by blast
  from scenario1_offsets[OF assms(1) m0 assms(3)]
  obtain mj aj bj where mj: "GetObject_MobilityModel (n ! j) = Some mj"
    and xj: "vec_x (GetPosition mj) - vec_x (GetPosition m0) = of_int aj"
    and yj: "vec_y (GetPosition mj) - vec_y (GetPosition m0) = of_int bj"
    and cj: "(of_int aj)\<^sup>2 + (of_int bj)\<^sup>2 \<le> (2500 :: real)" by blast
  have dx: "vec_x (GetPosition mj) - vec_x (GetPosition mi) = of_int (aj - ai)"
    using xi xj by simp
  have dy: "vec_y (GetPosition mj) - vec_y (GetPosition mi) = of_int (bj - bi)"
    using yi yj by simp
  have ci': "(of_int bi)\<^sup>2 + (of_int ai)\<^sup>2 \<le> (2500 :: real)" using ci by simp
  have cj': "(of_int bj)\<^sup>2 + (of_int aj)\<^sup>2 \<le> (2500 :: real)" using cj by simp
  have bx: "\<bar>aj - ai\<bar> \<le> 2 ^ 26"
    using abs_le_50[OF ci] abs_le_50[OF cj] by simp
  have by': "\<bar>bj - bi\<bar> \<le> 2 ^ 26"
    using abs_le_50[OF ci'] abs_le_50[OF cj'] by simp
  have "double_distSq (GetPosition mi) (GetPosition mj) =
        planar_distSq (GetPosition mi) (GetPosition mj)"
    using dx dy bx by' by (rule double_distSq_exact)
  also have "\<dots> = (real_of_int ai - of_int aj)\<^sup>2 + (real_of_int bi - of_int bj)\<^sup>2"
  proof -
    have "vec_x (GetPosition mi) - vec_x (GetPosition mj) = real_of_int ai - of_int aj"
      using xi xj by linarith
    moreover have "vec_y (GetPosition mi) - vec_y (GetPosition mj) = real_of_int bi - of_int bj"
      using yi yj by linarith
    ultimately show ?thesis by (simp only: planar_distSq_def)
  qed
  also have "\<dots> \<le> (2 * (0 - of_int ai)\<^sup>2 + 2 * (0 - of_int aj)\<^sup>2) +
                    (2 * (0 - of_int bi)\<^sup>2 + 2 * (0 - of_int bj)\<^sup>2)"
    by (intro add_mono square_diff_le)
  also have "\<dots> = 2 * ((of_int ai)\<^sup>2 + (of_int bi)\<^sup>2) + 2 * ((of_int aj)\<^sup>2 + (of_int bj)\<^sup>2)"
    by simp
  also have "\<dots> \<le> 100 * 100" using ci cj by simp
  finally show ?thesis using mi mj by (simp add: within_range_def)
qed

lemma filter_eq_upt: "filter (\<lambda>k. k = i) [a ..< b] = (if a \<le> i \<and> i < b then [i] else [])"
  by (induction b) auto

lemma length_filter_neq_upt:
  "length (filter (\<lambda>k. k \<noteq> i) [a ..< b]) = (b - a) - (if a \<le> i \<and> i < b then 1 else 0)"
proof -
  have "length (filter (\<lambda>k. k = i) [a ..< b]) + length (filter (\<lambda>k. \<not> k = i) [a ..< b]) =
        length [a ..< b]"
    by (rule sum_length_filter_compl)
  then have "length (filter (\<lambda>k. k \<noteq> i) [a ..< b]) =
      length [a ..< b] - length (filter (\<lambda>k. k = i) [a ..< b])"
    by linarith
  then show ?thesis by (simp add: filter_eq_upt)
qed

lemma scenario1_count:
  assumes "scenario1 n" and "1 \<le> tx" and "tx < 11"
  shows "length (filter (expected_receiver n tx (100 * 100)) n) =
         (if node_moving (n ! 0) then 10 else 9)"
proof -
  define P where "P j \<longleftrightarrow> j \<noteq> tx \<and> node_moving (n ! j) \<and>
     within_range (100 * 100) (n ! tx) (n ! j)" for j
  have len: "length n = 11" and ids: "ids_are_indices n"
    using assms(1) by (simp_all add: scenario1_def)
  have split: "[0 ..< length n] = 0 # [1 ..< 11]"
    using len by (simp add: upt_conv_Cons)
  have rest: "filter P [1 ..< 11] = filter (\<lambda>j. j \<noteq> tx) [1 ..< 11]"
    unfolding P_def
    using scenario1_transmitter(1)[OF assms(1)] scenario1_within_range[OF assms(1,3)]
    by (intro filter_cong) auto
  have "within_range (100 * 100) (n ! tx) (n ! 0)"
    using scenario1_within_range[OF assms(1,3), of 0] by simp
  then have P0: "P 0 \<longleftrightarrow> node_moving (n ! 0)"
    unfolding P_def using assms(2) by auto
  have nine: "length (filter (\<lambda>j. j \<noteq> tx) [1 ..< 11]) = 9"
    using assms(2,3) by (simp add: length_filter_neq_upt)
  have "length (filter (expected_receiver n tx (100 * 100)) n) = length (filter P [0 ..< length n])"
    unfolding P_def by (rule count_by_index[OF ids])
  also have "\<dots> = length (filter P (0 # [1 ..< 11]))"
    by (simp only: split)
  also have "\<dots> = (if P 0 then 1 else 0) + length (filter P [1 ..< 11])"
    by simp
  also have "\<dots> = (if node_moving (n ! 0) then 10 else 9)"
    by (simp only: rest nine P0) simp
  finally show ?thesis .
qed

lemma scenario1_tick:
  assumes "scenario1 n" and "1 \<le> tx" and "tx < 11"
    and "m_adhocTxNodes g = n" and "m_txSafetyRangeSq g = 100 * 100"
    and "GetId (GetNode socket) = tx"
  shows "GenerateWaveTraffic socket pktSize 1 pktInterval g =
     Inr (g\<lparr>wavePktSendCount := wavePktSendCount g + 1,
            wavePktExpectedReceiveCount := wavePktExpectedReceiveCount g +
              (if node_moving (n ! 0) then 10 else 9)\<rparr>,
          [Send (Create_Packet pktSize), Schedule pktInterval pktSize 0 pktInterval])"
proof -
  have len: "length n = 11" using assms(1) by (simp add: scenario1_def)
  have hm: "list_all has_mobility n"
    using scenario1_has_mobility[OF assms(1)] len by (simp add: list_all_length)
  have mv: "node_moving (n ! tx)" using scenario1_transmitter(1)[OF assms(1,2,3)] .
  from GenerateWaveTraffic_moving[of 1 socket g pktSize pktInterval]
  show ?thesis
    using assms(3,4,5,6) len hm mv scenario1_count[OF assms(1,2,3)] by simp
qed

lemma scenario1_round:
  assumes "scenario1 n"
    and "m_adhocTxNodes g = n" and "m_txSafetyRangeSq g = 100 * 100"
    and "list_all (\<lambda>s. 1 \<le> GetId (GetNode s) \<and> GetId (GetNode s) < 11) sockets"
  shows "\<exists>effects. GenerateWaveTraffic_round sockets pktSize 1 pktInterval g =
     Inr (g\<lparr>wavePktSendCount := wavePktSendCount g + int (length sockets),
            wavePktExpectedReceiveCount := wavePktExpectedReceiveCount g +
              int (length sockets) * (if node_moving (n ! 0) then 10 else 9)\<rparr>, effects)"
  using assms(2,3,4)
proof (induction sockets arbitrary: g)
  case Nil
  then show ?case by simp
next
  case (Cons s rest)
  let ?c = "if node_moving (n ! 0) then 10 else 9 :: int"
  let ?g1 = "g\<lparr>wavePktSendCount := wavePktSendCount g + 1,
            wavePktExpectedReceiveCount := wavePktExpectedReceiveCount g + ?c\<rparr>"
  have t: "GenerateWaveTraffic s pktSize 1 pktInterval g =
     Inr (?g1, [Send (Create_Packet pktSize), Schedule pktInterval pktSize 0 pktInterval])"
    using scenario1_tick[OF assms(1) _ _ Cons.prems(1,2), of "GetId (GetNode s)" s pktSize pktInterval]
      Cons.prems(3) by simp
  from Cons.IH[of ?g1] Cons.prems
  obtain effects where r: "GenerateWaveTraffic_round rest pktSize 1 pktInterval ?g1 =
     Inr (?g1\<lparr>wavePktSendCount := wavePktSendCount ?g1 + int (length rest),
            wavePktExpectedReceiveCount := wavePktExpectedReceiveCount ?g1 +
              int (length rest) * ?c\<rparr>, effects)"
    by auto
  show ?case
    using t r by (simp add: algebra_simps)
qed

lemma scenario1_sockets:
  assumes "scenario1 n"
  shows "list_all (\<lambda>s. 1 \<le> GetId (GetNode s) \<and> GetId (GetNode s) < 11) (transmitter_sockets n)"
    and "length (transmitter_sockets n) = 10"
proof -
  have len: "length n = 11" and ids: "ids_are_indices n"
    using assms(1) by (simp_all add: scenario1_def)
  show "length (transmitter_sockets n) = 10" using len by (simp add: transmitter_sockets_def)
  have "GetId (tl n ! k) = Suc k" if "k < 10" for k
    using ids_are_indices_nth[OF ids, of "Suc k"] that len by (simp add: nth_tl)
  then show "list_all (\<lambda>s. 1 \<le> GetId (GetNode s) \<and> GetId (GetNode s) < 11) (transmitter_sockets n)"
    using len by (simp add: transmitter_sockets_def list_all_length)
qed

lemma table_for_matching:
  assumes "table_for this n" and "i < length n"
  shows "matching_entries this (fst (m_adhocTxInterfaces this ! i)) = [i]"
    and "snd (m_adhocTxInterfaces this ! i) = n ! i"
    and "interfaces_cover this"
proof -
  let ?ifs = "m_adhocTxInterfaces this"
  have ms: "map snd ?ifs = n" and d: "distinct (map fst ?ifs)"
    and nn: "nat (sint (m_nNodes this)) = length n"
    using assms(1) by (simp_all add: table_for_def)
  have len: "length ?ifs = length n" using ms by (metis length_map)
  show "interfaces_cover this" using nn len by (simp add: interfaces_cover_def)
  have "snd (?ifs ! i) = map snd ?ifs ! i" using assms(2) len by simp
  then show "snd (?ifs ! i) = n ! i" using ms by simp
  have eq: "fst (?ifs ! k) = fst (?ifs ! i) \<longleftrightarrow> k = i" if "k < length n" for k
  proof -
    have "map fst ?ifs ! k = map fst ?ifs ! i \<longleftrightarrow> k = i"
      using that assms(2) len by (intro nth_eq_iff_index_eq[OF d]) simp_all
    then show ?thesis using that assms(2) len by simp
  qed
  have "matching_entries this (fst (?ifs ! i)) = filter (\<lambda>k. k = i) [0 ..< length n]"
    unfolding matching_entries_def nn by (rule filter_cong) (auto simp: eq)
  then show "matching_entries this (fst (?ifs ! i)) = [i]"
    using assms(2) by (simp add: filter_eq_upt)
qed

lemma scenario1_deliver:
  assumes "scenario1 n" and "table_for this n" and "m_txSafetyRangeSq g = 100 * 100"
    and "fst d < 11" and "snd d < 11" and "node_moving (n ! snd d)"
  shows "deliver this n pktSize d g =
     Inr (g\<lparr>wavePktReceiveCount := wavePktReceiveCount g + 1,
            wavePktInCoverageReceiveCount := wavePktInCoverageReceiveCount g + 1\<rparr>)"
proof -
  let ?ifs = "m_adhocTxInterfaces this"
  let ?addr = "fst (?ifs ! fst d)"
  let ?p = "\<lparr>GetSize = pktSize, PeekPacketTag = Some ?addr\<rparr>"
  have len: "length n = 11" using assms(1) by (simp add: scenario1_def)
  have i: "fst d < length n" using assms(4) len by simp
  note tm = table_for_matching[OF assms(2) i]
  have hm: "\<forall>k\<in>set (matching_entries this ?addr). has_mobility (snd (?ifs ! k))"
    using tm(1,2) scenario1_has_mobility[OF assms(1,4)] by simp
  have w: "within_range (m_txSafetyRangeSq g) (n ! snd d) (n ! fst d)"
    using scenario1_within_range[OF assms(1,5,4)] assms(3) by simp
  have "ReceiveWavePacket_body this (n ! snd d) ?p g =
     Inr (g\<lparr>wavePktReceiveCount := wavePktReceiveCount g + 1,
            wavePktInCoverageReceiveCount := wavePktInCoverageReceiveCount g + 1\<rparr>)"
    using ReceiveWavePacket_body_moving[OF assms(6) _ tm(3) hm, of ?p g] tm(1,2) w by simp
  then show ?thesis by (simp add: deliver_def ReceiveWavePacket_def)
qed

lemma scenario1_deliver_all:
  assumes "scenario1 n" and "table_for this n" and "m_txSafetyRangeSq g = 100 * 100"
    and "list_all (\<lambda>d. fst d < 11 \<and> snd d < 11 \<and> node_moving (n ! snd d)) ds"
  shows "deliver_all this n pktSize ds g =
     Inr (g\<lparr>wavePktReceiveCount := wavePktReceiveCount g + int (length ds),
            wavePktInCoverageReceiveCount := wavePktInCoverageReceiveCount g + int (length ds)\<rparr>)"
  using assms(3,4)
proof (induction ds arbitrary: g)
  case Nil
  then show ?case by simp
next
  case (Cons d ds)
  let ?g1 = "g\<lparr>wavePktReceiveCount := wavePktReceiveCount g + 1,
            wavePktInCoverageReceiveCount := wavePktInCoverageReceiveCount g + 1\<rparr>"
  have "deliver this n pktSize d g = Inr ?g1"
    using scenario1_deliver[OF assms(1,2) Cons.prems(1), of d pktSize] Cons.prems(2) by simp
  moreover have "deliver_all this n pktSize ds ?g1 =
     Inr (?g1\<lparr>wavePktReceiveCount := wavePktReceiveCount ?g1 + int (length ds),
            wavePktInCoverageReceiveCount := wavePktInCoverageReceiveCount ?g1 + int (length ds)\<rparr>)"
    using Cons.IH[of ?g1] Cons.prems by simp
  ultimately show ?case by (simp add: algebra_simps)
qed

lemma scenario1_nodes_ok: "scenario1 (scenario1_nodes v)"
  by (simp add: scenario1_def scenario1_nodes_def mk_node_def ids_are_indices_def
      double_position_def is_double_def round_double_integral node_moving_def moving_def
      at_distSq_def planar_distSq_def upt_rec)

lemma scenario1_table_ok: "table_for (scenario1_experiment v) (scenario1_nodes v)"
  by (simp add: table_for_def scenario1_experiment_def scenario1_nodes_def)

lemma all_deliveries_ok: "list_all (\<lambda>d. fst d < 11 \<and> snd d < 11 \<and> node_moving (scenario1_nodes (Vector 1 0 0) ! snd d)) all_deliveries"
  by (simp add: all_deliveries_def upt_rec scenario1_nodes_def mk_node_def node_moving_def moving_def)

lemma length_all_deliveries: "length all_deliveries = 100"
  by (simp add: all_deliveries_def upt_rec)

section \<open>The claims\<close>





text \<open>
  \<^bold>\<open>C3.\<close> A generator tick with \<open>pktCount > 0\<close> whose sender is stationary (x and y
  velocity both zero) sends nothing and leaves every static member, the four counters
  among them, as it was; its only effect is to schedule itself again after
  \<open>pktInterval\<close> with \<open>pktCount - 1\<close>.
\<close>

theorem C3_stationary_sender_tick:
  assumes "0 < pktCount"
    and "GetId (GetNode socket) < length (m_adhocTxNodes g)"
    and "node_stationary (m_adhocTxNodes g ! GetId (GetNode socket))"
  shows "GenerateWaveTraffic socket pktSize pktCount pktInterval g =
     Inr (g, [Schedule pktInterval pktSize (pktCount - 1) pktInterval])"
  using assms by (rule GenerateWaveTraffic_stationary)

theorem C3_stationary_sender_tick_witness:
  "GenerateWaveTraffic (example_socket 3 []) 200 3 (1 / 10) example_statics =
     Inr (example_statics, [Schedule (1 / 10) 200 2 (1 / 10)])
   \<and> node_stationary (m_adhocTxNodes example_statics ! GetId (GetNode (example_socket 3 [])))"
  using C3_stationary_sender_tick[of 3 "example_socket 3 []" example_statics 200 "1 / 10"]
  by (simp add: example_socket_def example_statics_def example_nodes_def mk_node_def
      node_stationary_def moving_def)

text \<open>
  \<^bold>\<open>C4.\<close> \<open>ReceiveWavePacket\<close> drains the queue and adds one to
  \<open>wavePktReceiveCount\<close> for every beacon in it, whatever the receiver's motion and the
  senders' distances; when the receiver is stationary nothing else changes, so none of the
  beacons reaches \<open>wavePktInCoverageReceiveCount\<close>. The receiver and the nodes of the
  interface table carry mobility models, and the table has its \<open>m_nNodes\<close> entries.
\<close>

theorem C4_received_counts_every_beacon:
  assumes "has_mobility (GetNode socket)"
    and "interfaces_cover this"
    and "list_all (\<lambda>xx. has_mobility (snd xx)) (m_adhocTxInterfaces this)"
  shows "\<exists>k. ReceiveWavePacket this socket g =
     Inr (g\<lparr>wavePktReceiveCount := wavePktReceiveCount g + int (length (Recv_queue socket)),
            wavePktInCoverageReceiveCount := wavePktInCoverageReceiveCount g + int k\<rparr>,
          socket\<lparr>Recv_queue := []\<rparr>)
     \<and> (node_stationary (GetNode socket) \<longrightarrow> k = 0)"
proof -
  from ReceiveWavePacket_while_total[OF assms, of "Recv_queue socket" g]
  obtain k where "ReceiveWavePacket_while this (GetNode socket) (Recv_queue socket) g =
     Inr (g\<lparr>wavePktReceiveCount := wavePktReceiveCount g + int (length (Recv_queue socket)),
            wavePktInCoverageReceiveCount := wavePktInCoverageReceiveCount g + int k\<rparr>)"
    and "node_stationary (GetNode socket) \<longrightarrow> k = 0"
    by blast
  then show ?thesis
    by (intro exI[of _ k]) (simp add: ReceiveWavePacket_def)
qed

theorem C4_received_counts_every_beacon_witness:
  "ReceiveWavePacket example_experiment
       (example_socket 3 [beacon_from 0x0A010001, Create_Packet 200, beacon_from 0x0A010003])
       example_statics =
     Inr (example_statics\<lparr>wavePktReceiveCount := 3\<rparr>,
          example_socket 3 [])
   \<and> node_stationary (GetNode (example_socket 3 []))
   \<and> interfaces_cover example_experiment
   \<and> list_all (\<lambda>xx. has_mobility (snd xx)) (m_adhocTxInterfaces example_experiment)"
proof -
  let ?s = "example_socket 3 [beacon_from 0x0A010001, Create_Packet 200, beacon_from 0x0A010003]"
  have st: "node_stationary (GetNode ?s)"
    by (simp add: example_socket_def example_nodes_def mk_node_def node_stationary_def moving_def)
  have hm: "has_mobility (GetNode ?s)"
    by (simp add: example_socket_def example_nodes_def mk_node_def has_mobility_def)
  have ic: "interfaces_cover example_experiment"
    by (simp add: example_experiment_def interfaces_cover_def)
  have la: "list_all (\<lambda>xx. has_mobility (snd xx)) (m_adhocTxInterfaces example_experiment)"
    by (simp add: example_experiment_def example_nodes_def mk_node_def has_mobility_def)
  from C4_received_counts_every_beacon[OF hm ic la, of example_statics] st
  have "ReceiveWavePacket example_experiment ?s example_statics =
     Inr (example_statics\<lparr>wavePktReceiveCount := wavePktReceiveCount example_statics + int (length (Recv_queue ?s)),
            wavePktInCoverageReceiveCount := wavePktInCoverageReceiveCount example_statics + int 0\<rparr>,
          ?s\<lparr>Recv_queue := []\<rparr>)"
    by auto
  then have "ReceiveWavePacket example_experiment ?s example_statics =
     Inr (example_statics\<lparr>wavePktReceiveCount := 3\<rparr>, example_socket 3 [])"
    by (simp add: example_socket_def example_statics_def)
  then show ?thesis using st ic la by (simp add: example_socket_def)
qed

text \<open>
  \<^bold>\<open>C5.\<close> As the claim words it, no event occurs at t = 4.0 when a budget of three
  beacons starts at t = 1.0 with an interval of one second. In the code the tick at
  t = 3.0 runs with \<open>pktCount = 1\<close> and still schedules the next call, so the scheduler
  does run \<open>GenerateWaveTraffic\<close> at t = 4.0, with \<open>pktCount = 0\<close>: that call closes the
  socket. The trace of the small world shows it.
\<close>

theorem C5_counterexample:
  "GenerateWaveTraffic_chain example_nodes_at (example_socket 0 []) 1 200 3 1 example_statics =
     Inr (example_statics\<lparr>wavePktSendCount := 3, wavePktExpectedReceiveCount := 3\<rparr>,
       [(1, Send (Create_Packet 200)), (1, Schedule 1 200 2 1),
        (2, Send (Create_Packet 200)), (2, Schedule 1 200 1 1),
        (3, Send (Create_Packet 200)), (3, Schedule 1 200 0 1),
        (4, Close)])
   \<and> \<not> no_event_at 4
         (GenerateWaveTraffic_chain example_nodes_at (example_socket 0 []) 1 200 3 1 example_statics)"
  by (simp add: chain_example no_event_at_def event_times_def)

text \<open>
  \<^bold>\<open>C5, as the code has it.\<close> A call with \<open>pktCount = 0\<close> closes the socket and
  schedules nothing. With a budget of three, an interval of one second and a start at
  t = 1.0, a sender that is moving at t = 1.0, 2.0 and 3.0 sends at these three times;
  the last event of the chain is the call at t = 4.0, which sends nothing and closes
  the socket.
\<close>

theorem C5_budget_of_three:
  assumes "sender_ready (nodes_at 1) socket"
    and "sender_ready (nodes_at 2) socket"
    and "sender_ready (nodes_at 3) socket"
  shows "GenerateWaveTraffic socket pktSize 0 pktInterval g = Inr (g, [Close])
     \<and> (\<exists>g'. GenerateWaveTraffic_chain nodes_at socket 1 pktSize 3 1 g =
           Inr (g', [(1, Send (Create_Packet pktSize)), (1, Schedule 1 pktSize 2 1),
                     (2, Send (Create_Packet pktSize)), (2, Schedule 1 pktSize 1 1),
                     (3, Send (Create_Packet pktSize)), (3, Schedule 1 pktSize 0 1),
                     (4, Close)])
           \<and> wavePktSendCount g' = wavePktSendCount g + 3)"
proof -
  from sender_ready_tick[OF assms(1), of 3 pktSize 1 g]
  obtain g1 where t1: "GenerateWaveTraffic socket pktSize 3 1 (g\<lparr>m_adhocTxNodes := nodes_at 1\<rparr>) =
      Inr (g1, [Send (Create_Packet pktSize), Schedule 1 pktSize 2 1])"
    and c1: "wavePktSendCount g1 = wavePktSendCount g + 1" by auto
  from sender_ready_tick[OF assms(2), of 2 pktSize 1 g1]
  obtain g2 where t2: "GenerateWaveTraffic socket pktSize 2 1 (g1\<lparr>m_adhocTxNodes := nodes_at 2\<rparr>) =
      Inr (g2, [Send (Create_Packet pktSize), Schedule 1 pktSize 1 1])"
    and c2: "wavePktSendCount g2 = wavePktSendCount g1 + 1" by auto
  from sender_ready_tick[OF assms(3), of "Suc 0" pktSize 1 g2]
  obtain g3 where t3: "GenerateWaveTraffic socket pktSize (Suc 0) 1 (g2\<lparr>m_adhocTxNodes := nodes_at 3\<rparr>) =
      Inr (g3, [Send (Create_Packet pktSize), Schedule 1 pktSize 0 1])"
    and c3: "wavePktSendCount g3 = wavePktSendCount g2 + 1" by auto
  have e4: "GenerateWaveTraffic_chain nodes_at socket 4 pktSize 0 1 g3 =
      Inr (g3\<lparr>m_adhocTxNodes := nodes_at 4\<rparr>, [(4, Close)])"
    by (subst GenerateWaveTraffic_chain.simps) (simp add: GenerateWaveTraffic_zero)
  have e3: "GenerateWaveTraffic_chain nodes_at socket 3 pktSize (Suc 0) 1 g2 =
      Inr (g3\<lparr>m_adhocTxNodes := nodes_at 4\<rparr>,
           [(3, Send (Create_Packet pktSize)), (3, Schedule 1 pktSize 0 1), (4, Close)])"
    by (subst GenerateWaveTraffic_chain.simps) (simp add: t3 e4)
  have e2: "GenerateWaveTraffic_chain nodes_at socket 2 pktSize 2 1 g1 =
      Inr (g3\<lparr>m_adhocTxNodes := nodes_at 4\<rparr>,
           [(2, Send (Create_Packet pktSize)), (2, Schedule 1 pktSize 1 1),
            (3, Send (Create_Packet pktSize)), (3, Schedule 1 pktSize 0 1), (4, Close)])"
    by (subst GenerateWaveTraffic_chain.simps) (simp add: t2 e3)
  have e1: "GenerateWaveTraffic_chain nodes_at socket 1 pktSize 3 1 g =
      Inr (g3\<lparr>m_adhocTxNodes := nodes_at 4\<rparr>,
           [(1, Send (Create_Packet pktSize)), (1, Schedule 1 pktSize 2 1),
            (2, Send (Create_Packet pktSize)), (2, Schedule 1 pktSize 1 1),
            (3, Send (Create_Packet pktSize)), (3, Schedule 1 pktSize 0 1), (4, Close)])"
    by (subst GenerateWaveTraffic_chain.simps) (simp add: t1 e2)
  show ?thesis
    using e1 c1 c2 c3 by (simp add: GenerateWaveTraffic_zero)
qed

theorem C5_budget_of_three_witness:
  "GenerateWaveTraffic (example_socket 0 []) 200 0 1 example_statics = Inr (example_statics, [Close])
   \<and> event_times (GenerateWaveTraffic_chain example_nodes_at (example_socket 0 []) 1 200 3 1
        example_statics) = [1, 1, 2, 2, 3, 3, 4]
   \<and> sender_ready (example_nodes_at 1) (example_socket 0 [])
   \<and> sender_ready (example_nodes_at 2) (example_socket 0 [])
   \<and> sender_ready (example_nodes_at 3) (example_socket 0 [])"
proof -
  have r: "sender_ready (example_nodes_at t) (example_socket 0 [])" for t
    by (simp add: sender_ready_def example_nodes_at_def example_socket_def example_nodes_def
        mk_node_def has_mobility_def node_moving_def moving_def)
  from C5_budget_of_three[where nodes_at = example_nodes_at and socket = "example_socket 0 []"
      and pktSize = 200 and pktInterval = 1 and g = example_statics, OF r r r]
  show ?thesis using r by (auto simp: event_times_def)
qed

text \<open>
  \<^bold>\<open>C6.\<close> As the claim words it, both rows of two successive samples carry an interval
  PDR of 0. The first row reports the interval that ended with the first sample: with
  two packets sent and one received before it, its interval PDR is 1/2.
\<close>

theorem C6_counterexample:
  "row_wavePDR (hd (csv (fst (CheckThroughput_twice 1 2 example_experiment
       (example_statics\<lparr>wavePktSendCount := 2, wavePktReceiveCount := 1\<rparr>))))) = Finite (1 / 2)
   \<and> row_wavePDR (hd (csv (fst (CheckThroughput_twice 1 2 example_experiment
       (example_statics\<lparr>wavePktSendCount := 2, wavePktReceiveCount := 1\<rparr>))))) \<noteq> Finite 0"
  by (simp add: CheckThroughput_twice_def CheckThroughput_def wavePDR_def double_div_def
      example_experiment_def example_statics_def Let_def round_double_half)

text \<open>
  \<^bold>\<open>C6, as the code has it.\<close> \<open>CheckThroughput\<close> appends one row, sets \<open>bytesTotal\<close>,
  \<open>packetsReceived\<close>, \<open>wavePktReceiveCount\<close> and \<open>wavePktSendCount\<close> to zero and leaves
  \<open>wavePktExpectedReceiveCount\<close> and \<open>wavePktInCoverageReceiveCount\<close> alone. Two samples
  with nothing sent or received in between append two rows: the first carries the
  interval PDR of the counters it found, the second an interval PDR of 0, and both carry
  the same cumulative PDR.
\<close>

theorem C6_sampler_resets_interval_counters:
  "CheckThroughput t1 this g =
     (this\<lparr>bytesTotal := 0, packetsReceived := 0,
            csv := csv this @ [\<lparr>row_time = t1,
               row_kbs = round_double (double_mul (real (bytesTotal this)) 8 / 1000),
               row_packetsReceived = packetsReceived this, row_nSinks = m_nSinks this,
               row_protocolName = m_protocolName this, row_txp = m_txp this,
               row_wavePktReceiveCount = wavePktReceiveCount g,
               row_wavePktSendCount = wavePktSendCount g,
               row_wavePDR = wavePDR g,
               row_wavePktExpectedReceiveCount = wavePktExpectedReceiveCount g,
               row_wavePktInCoverageReceiveCount = wavePktInCoverageReceiveCount g,
               row_wavePDR2 = wavePDR2 g\<rparr>]\<rparr>,
      g\<lparr>wavePktReceiveCount := 0, wavePktSendCount := 0\<rparr>, 1)
   \<and> wavePktExpectedReceiveCount (fst (snd (CheckThroughput t1 this g))) = wavePktExpectedReceiveCount g
   \<and> wavePktInCoverageReceiveCount (fst (snd (CheckThroughput t1 this g))) = wavePktInCoverageReceiveCount g
   \<and> (\<exists>r1 r2. csv (fst (CheckThroughput_twice t1 t2 this g)) = csv this @ [r1, r2]
        \<and> row_wavePDR r1 = wavePDR g
        \<and> row_wavePDR r2 = Finite 0
        \<and> row_wavePDR2 r1 = wavePDR2 g
        \<and> row_wavePDR2 r2 = wavePDR2 g)"
  by (simp add: CheckThroughput_twice_def CheckThroughput_def wavePDR_def wavePDR2_def Let_def)

text \<open>
  \<^bold>\<open>C7.\<close> With \<open>wavePktSendCount = 0\<close> the interval PDR of the sample is exactly 0, and
  with \<open>wavePktExpectedReceiveCount = 0\<close> the cumulative PDR of the sample and the final
  \<open>bsm_pdr\<close> of \<open>Run\<close> are exactly 0. The division is never reached with a zero
  divisor, so each ratio is a finite number in every state.
\<close>

theorem C7_zero_denominator_reports_zero:
  "(wavePktSendCount g = 0 \<longrightarrow>
      wavePDR g = Finite 0 \<and>
      row_wavePDR (last (csv (fst (CheckThroughput now this g)))) = Finite 0)
   \<and> (wavePktExpectedReceiveCount g = 0 \<longrightarrow>
      wavePDR2 g = Finite 0 \<and>
      row_wavePDR2 (last (csv (fst (CheckThroughput now this g)))) = Finite 0 \<and>
      bsm_pdr g = Finite 0)
   \<and> (\<exists>a b c. wavePDR g = Finite a \<and> wavePDR2 g = Finite b \<and> bsm_pdr g = Finite c)"
  by (simp add: CheckThroughput_def wavePDR_def wavePDR2_def bsm_pdr_def double_div_def Let_def)

theorem C7_zero_denominator_reports_zero_witness:
  "wavePktSendCount example_statics = 0 \<and> wavePktExpectedReceiveCount example_statics = 0
   \<and> row_wavePDR (last (csv (fst (CheckThroughput 1 example_experiment example_statics)))) = Finite 0
   \<and> row_wavePDR2 (last (csv (fst (CheckThroughput 1 example_experiment example_statics)))) = Finite 0
   \<and> bsm_pdr example_statics = Finite 0"
  using C7_zero_denominator_reports_zero[of example_statics 1 example_experiment]
  by (simp add: example_statics_def)

text \<open>
  \<^bold>\<open>C8.\<close> As the claim words it, \<open>wavePktExpectedReceiveCount\<close> is 10 after the ten
  sends of scenario 1. The scan of a sender counts every other moving node in range, and
  two transmitters that are both 50 away from the observer are at most 100 apart: each
  send counts the nine other transmitters, and the observer if it moves. In a world with
  the observer at the origin and ten transmitters on the circle of radius 50 the counter
  is 100 when the observer moves and 90 when it stands still.
\<close>

theorem C8_counterexample:
  "counters_after (GenerateWaveTraffic_round (transmitter_sockets (scenario1_nodes (Vector 1 0 0)))
       200 1 (1 / 10) (scenario1_statics (Vector 1 0 0))) = Some (10, 100)
   \<and> counters_after (GenerateWaveTraffic_round (transmitter_sockets (scenario1_nodes (Vector 0 0 0)))
       200 1 (1 / 10) (scenario1_statics (Vector 0 0 0))) = Some (10, 90)
   \<and> counters_after (GenerateWaveTraffic_round (transmitter_sockets (scenario1_nodes (Vector 1 0 0)))
       200 1 (1 / 10) (scenario1_statics (Vector 1 0 0))) \<noteq> Some (10, 10)"
proof -
  have r: "counters_after (GenerateWaveTraffic_round (transmitter_sockets (scenario1_nodes v))
       200 1 (1 / 10) (scenario1_statics v)) =
     Some (10, if node_moving (scenario1_nodes v ! 0) then 100 else 90)" for v
  proof -
    have g: "m_adhocTxNodes (scenario1_statics v) = scenario1_nodes v"
      "m_txSafetyRangeSq (scenario1_statics v) = 100 * 100"
      by (simp_all add: scenario1_statics_def)
    from scenario1_round[OF scenario1_nodes_ok g scenario1_sockets(1)[OF scenario1_nodes_ok],
        where pktSize = 200 and pktInterval = "1 / 10"]
    obtain effects where
      "GenerateWaveTraffic_round (transmitter_sockets (scenario1_nodes v)) 200 1 (1 / 10)
         (scenario1_statics v) =
       Inr ((scenario1_statics v)
            \<lparr>wavePktSendCount := wavePktSendCount (scenario1_statics v) +
               int (length (transmitter_sockets (scenario1_nodes v))),
             wavePktExpectedReceiveCount := wavePktExpectedReceiveCount (scenario1_statics v) +
               int (length (transmitter_sockets (scenario1_nodes v))) *
               (if node_moving (scenario1_nodes v ! 0) then 10 else 9)\<rparr>, effects)"
      by blast
    then show ?thesis
      using scenario1_sockets(2)[OF scenario1_nodes_ok, of v]
      by (simp add: counters_after_def scenario1_statics_def)
  qed
  have "node_moving (scenario1_nodes (Vector 1 0 0) ! 0)"
    "\<not> node_moving (scenario1_nodes (Vector 0 0 0) ! 0)"
    by (simp_all add: scenario1_nodes_def mk_node_def node_moving_def moving_def)
  then show ?thesis
    using r[of "Vector 1 0 0"] r[of "Vector 0 0 0"] by simp
qed

text \<open>
  \<^bold>\<open>C8, as the code has it.\<close> In every world of scenario 1 (coordinates that are
  doubles, node 0 the observer, nodes 1 to 10 moving transmitters at distance 50 from it,
  safety range 100, counters at zero, one tick with budget 1 for each transmitter and
  none for the observer) \<open>wavePktSendCount\<close> rises by 10 and
  \<open>wavePktExpectedReceiveCount\<close> is 100 after the ten sends when the observer is moving
  and 90 when it is not. Every beacon of a node that reaches a moving node adds one to
  \<open>wavePktInCoverageReceiveCount\<close>; the final ratio is the number of deliveries divided by
  the expected count (rounded to a double), which is 1 when the observer is moving and
  each of the ten beacons reaches the ten other nodes. At such coordinates the offsets
  between the nodes are integers, so no operation of \<open>getDistSq\<close> rounds.
\<close>

theorem C8_scenario1_counts_every_pair:
  assumes "scenario1 n"
    and "m_adhocTxNodes g = n" and "m_txSafetyRangeSq g = 100 * 100"
    and "wavePktExpectedReceiveCount g = 0" and "wavePktInCoverageReceiveCount g = 0"
    and "table_for this n"
    and "list_all (\<lambda>d. fst d < 11 \<and> snd d < 11 \<and> node_moving (n ! snd d)) ds"
  shows "\<exists>g1 effects g2.
       GenerateWaveTraffic_round (transmitter_sockets n) pktSize 1 pktInterval g = Inr (g1, effects)
     \<and> wavePktSendCount g1 = wavePktSendCount g + 10
     \<and> wavePktExpectedReceiveCount g1 = (if node_moving (n ! 0) then 100 else 90)
     \<and> deliver_all this n pktSize ds g1 = Inr g2
     \<and> wavePktExpectedReceiveCount g2 = (if node_moving (n ! 0) then 100 else 90)
     \<and> wavePktInCoverageReceiveCount g2 = int (length ds)
     \<and> bsm_pdr g2 =
         Finite (round_double (real (length ds) / (if node_moving (n ! 0) then 100 else 90)))"
proof -
  let ?c = "if node_moving (n ! 0) then 10 else 9 :: int"
  let ?g1 = "g\<lparr>wavePktSendCount := wavePktSendCount g + int (length (transmitter_sockets n)),
            wavePktExpectedReceiveCount := wavePktExpectedReceiveCount g +
              int (length (transmitter_sockets n)) * ?c\<rparr>"
  let ?g2 = "?g1\<lparr>wavePktReceiveCount := wavePktReceiveCount ?g1 + int (length ds),
            wavePktInCoverageReceiveCount := wavePktInCoverageReceiveCount ?g1 + int (length ds)\<rparr>"
  from scenario1_round[OF assms(1,2,3) scenario1_sockets(1)[OF assms(1)], of pktSize pktInterval]
  obtain effects where r: "GenerateWaveTraffic_round (transmitter_sockets n) pktSize 1 pktInterval g =
     Inr (?g1, effects)" by blast
  have r1: "m_txSafetyRangeSq ?g1 = 100 * 100" using assms(3) by simp
  have d: "deliver_all this n pktSize ds ?g1 = Inr ?g2"
    using scenario1_deliver_all[OF assms(1,6) r1 assms(7)] .
  have ten: "length (transmitter_sockets n) = 10" using scenario1_sockets(2)[OF assms(1)] .
  have e: "wavePktExpectedReceiveCount ?g1 = (if node_moving (n ! 0) then 100 else 90)"
    using assms(4) ten by simp
  have p: "bsm_pdr ?g2 =
      Finite (round_double (real (length ds) / (if node_moving (n ! 0) then 100 else 90)))"
    using assms(4,5) ten by (simp add: bsm_pdr_def double_div_def)
  show ?thesis
    using r d e p assms(5) ten by (intro exI[of _ ?g1] exI[of _ effects] exI[of _ ?g2]) simp
qed

theorem C8_scenario1_counts_every_pair_witness:
  "scenario1 (scenario1_nodes (Vector 1 0 0)) \<and> length all_deliveries = 100
   \<and> (\<exists>g1 effects g2.
       GenerateWaveTraffic_round (transmitter_sockets (scenario1_nodes (Vector 1 0 0))) 200 1 (1 / 10)
         (scenario1_statics (Vector 1 0 0)) = Inr (g1, effects)
     \<and> wavePktExpectedReceiveCount g1 = 100
     \<and> deliver_all (scenario1_experiment (Vector 1 0 0)) (scenario1_nodes (Vector 1 0 0)) 200
         all_deliveries g1 = Inr g2
     \<and> wavePktInCoverageReceiveCount g2 = 100
     \<and> bsm_pdr g2 = Finite 1)"
proof -
  have mv: "node_moving (scenario1_nodes (Vector 1 0 0) ! 0)"
    by (simp add: scenario1_nodes_def mk_node_def node_moving_def moving_def)
  from C8_scenario1_counts_every_pair[where n = "scenario1_nodes (Vector 1 0 0)"
      and g = "scenario1_statics (Vector 1 0 0)" and this = "scenario1_experiment (Vector 1 0 0)"
      and ds = all_deliveries and pktSize = 200 and pktInterval = "1 / 10",
      OF scenario1_nodes_ok _ _ _ _ scenario1_table_ok all_deliveries_ok]
  obtain g1 effects g2 where
    "GenerateWaveTraffic_round (transmitter_sockets (scenario1_nodes (Vector 1 0 0))) 200 1 (1 / 10)
         (scenario1_statics (Vector 1 0 0)) = Inr (g1, effects)"
    "wavePktExpectedReceiveCount g1 = 100"
    "deliver_all (scenario1_experiment (Vector 1 0 0)) (scenario1_nodes (Vector 1 0 0)) 200
         all_deliveries g1 = Inr g2"
    "wavePktInCoverageReceiveCount g2 = 100"
    "bsm_pdr g2 = Finite 1"
    using mv by (auto simp: scenario1_statics_def length_all_deliveries round_double_integral)
  then show ?thesis
    using scenario1_nodes_ok length_all_deliveries by blast
qed

text \<open>
  \<^bold>\<open>C9.\<close> A received beacon that carries no address tag, or whose tag address no entry
  of the interface table holds, raises no error: the loop body returns with
  \<open>wavePktReceiveCount\<close> one higher and everything else, \<open>wavePktInCoverageReceiveCount\<close>
  included, unchanged, and the handler goes on with the rest of the queue from that state.
\<close>

theorem C9_unresolvable_sender_is_skipped:
  assumes "has_mobility node"
    and "interfaces_cover this"
    and "PeekPacketTag packet = None \<or>
         (\<exists>addr. PeekPacketTag packet = Some addr \<and> matching_entries this addr = [])"
  shows "ReceiveWavePacket_body this node packet g =
           Inr (g\<lparr>wavePktReceiveCount := wavePktReceiveCount g + 1\<rparr>)
       \<and> ReceiveWavePacket_while this node (packet # queue) g =
           ReceiveWavePacket_while this node queue
             (g\<lparr>wavePktReceiveCount := wavePktReceiveCount g + 1\<rparr>)"
proof -
  have b: "ReceiveWavePacket_body this node packet g =
           Inr (g\<lparr>wavePktReceiveCount := wavePktReceiveCount g + 1\<rparr>)"
  proof (cases "node_stationary node")
    case True
    then show ?thesis by (rule ReceiveWavePacket_body_stationary)
  next
    case False
    then have mv: "node_moving node"
      using assms(1) by (auto simp: node_stationary_def node_moving_def has_mobility_def)
    from assms(3) show ?thesis
    proof
      assume "PeekPacketTag packet = None"
      then show ?thesis using assms(1) by (intro ReceiveWavePacket_body_untagged)
    next
      assume "\<exists>addr. PeekPacketTag packet = Some addr \<and> matching_entries this addr = []"
      then obtain addr where a: "PeekPacketTag packet = Some addr" "matching_entries this addr = []"
        by blast
      have "\<forall>i\<in>set (matching_entries this addr). has_mobility (snd (m_adhocTxInterfaces this ! i))"
        using a(2) by simp
      from ReceiveWavePacket_body_moving[OF mv a(1) assms(2) this, of g] a(2)
      show ?thesis by simp
    qed
  qed
  then show ?thesis by simp
qed

theorem C9_unresolvable_sender_is_skipped_witness:
  "ReceiveWavePacket_body example_experiment (example_nodes ! 0) (beacon_from 0x0A010063)
       example_statics =
     Inr (example_statics\<lparr>wavePktReceiveCount := 1\<rparr>)
   \<and> ReceiveWavePacket_while example_experiment (example_nodes ! 0)
       [beacon_from 0x0A010063, beacon_from 0x0A010002] example_statics =
     Inr (example_statics\<lparr>wavePktReceiveCount := 2, wavePktInCoverageReceiveCount := 1\<rparr>)
   \<and> matching_entries example_experiment 0x0A010063 = []
   \<and> node_moving (example_nodes ! 0)"
  using C9_unresolvable_sender_is_skipped[where node = "example_nodes ! 0"
      and this = example_experiment and packet = "beacon_from 0x0A010063"
      and queue = "[beacon_from 0x0A010002]" and g = example_statics]
  by (simp add: matching_entries_def upt_five interfaces_cover_def
      ReceiveWavePacket_body_def example_experiment_def example_statics_def
      example_nodes_def mk_node_def beacon_from_def has_mobility_def node_moving_def
      moving_def Get_interface_def getDistSq_def Let_def double_eval)

text \<open>
  \<^bold>\<open>C10.\<close> A node whose velocity is \<open>(0, 0, vz)\<close> with \<open>vz \<noteq> 0\<close> is stationary for
  all three gates: as the sender of a tick it sends nothing and changes no counter, as a
  candidate of the scan of another sender it is passed over, and as the receiver of a
  beacon it only adds to \<open>wavePktReceiveCount\<close>.
\<close>

theorem C10_only_x_and_y_decide_motion:
  assumes "GetObject_MobilityModel nd = Some m"
    and "GetVelocity m = Vector 0 0 vz"
    and "vz \<noteq> 0"
  shows "(0 < pktCount \<and> GetId (GetNode socket) < length (m_adhocTxNodes g) \<and>
          m_adhocTxNodes g ! GetId (GetNode socket) = nd \<longrightarrow>
            GenerateWaveTraffic socket pktSize pktCount pktInterval g =
              Inr (g, [Schedule pktInterval pktSize (pktCount - 1) pktInterval]))
       \<and> GenerateWaveTraffic_for (nd # rest) n tx g = GenerateWaveTraffic_for rest n tx g
       \<and> ReceiveWavePacket_body this nd packet g =
           Inr (g\<lparr>wavePktReceiveCount := wavePktReceiveCount g + 1\<rparr>)"
proof -
  have st: "node_stationary nd" using assms(1,2) by (simp add: node_stationary_def moving_def)
  have a: "0 < pktCount \<and> GetId (GetNode socket) < length (m_adhocTxNodes g) \<and>
          m_adhocTxNodes g ! GetId (GetNode socket) = nd \<longrightarrow>
            GenerateWaveTraffic socket pktSize pktCount pktInterval g =
              Inr (g, [Schedule pktInterval pktSize (pktCount - 1) pktInterval])"
    using st GenerateWaveTraffic_stationary[of pktCount socket g pktSize pktInterval] by blast
  have b: "GenerateWaveTraffic_for (nd # rest) n tx g = GenerateWaveTraffic_for rest n tx g"
    using assms(1,2) by (simp add: Let_def)
  have c: "ReceiveWavePacket_body this nd packet g =
           Inr (g\<lparr>wavePktReceiveCount := wavePktReceiveCount g + 1\<rparr>)"
    using st by (rule ReceiveWavePacket_body_stationary)
  from a b c show ?thesis by blast
qed

theorem C10_only_x_and_y_decide_motion_witness:
  "GenerateWaveTraffic (example_socket 4 []) 200 3 (1 / 10) example_statics =
     Inr (example_statics, [Schedule (1 / 10) 200 2 (1 / 10)])
   \<and> GenerateWaveTraffic_for (example_nodes ! 4 # []) example_nodes 0 example_statics =
       Inr example_statics
   \<and> ReceiveWavePacket_body example_experiment (example_nodes ! 4) (beacon_from 0x0A010001)
       example_statics =
     Inr (example_statics\<lparr>wavePktReceiveCount := 1\<rparr>)
   \<and> GetObject_MobilityModel (example_nodes ! 4) =
       Some \<lparr>GetPosition = Vector 2 2 (3 / 2), GetVelocity = Vector 0 0 5\<rparr>
   \<and> within_range (m_txSafetyRangeSq example_statics) (example_nodes ! 0) (example_nodes ! 4)"
  using C10_only_x_and_y_decide_motion[where nd = "example_nodes ! 4"
      and m = "\<lparr>GetPosition = Vector 2 2 (3 / 2), GetVelocity = Vector 0 0 5\<rparr>" and vz = 5
      and pktCount = 3 and socket = "example_socket 4 []" and g = example_statics
      and pktSize = 200 and pktInterval = "1 / 10" and rest = "[]" and n = example_nodes
      and tx = 0 and this = example_experiment and packet = "beacon_from 0x0A010001"]
  by (simp add: example_socket_def example_statics_def example_nodes_def mk_node_def
      within_range_def double_eval)

end
